theory Spec2Isabelle
  imports Main "HOL-Library.Word"
begin

section \<open>The LXD migration core (lxd/migrate.go) as a shallow embedding\<close>

text \<open>
  The development follows \<^verbatim>\<open>lxd/migrate.go\<close>, \<^verbatim>\<open>lxd/migration/migrate.proto\<close> and the
  helpers of package \<^verbatim>\<open>shared\<close> that the migration code calls. Every call that leaves the
  process (websocket I/O, the storage driver, criu, the file system) takes its result from
  an environment record, and the calls made are appended to a trace, so that one run of
  \<^verbatim>\<open>Do\<close> is a function of the environment.
\<close>

subsection \<open>Wire types (migrate.proto)\<close>

datatype MigrationFSType = RSYNC | BTRFS | ZFS

datatype CRIUType = CRIU_RSYNC | PHAUL | NONE

text \<open>\<^verbatim>\<open>message IDMapType\<close>: all fields required; the ids are \<^verbatim>\<open>int32\<close>.\<close>

record IDMapType =
  pb_Isuid :: bool
  pb_Isgid :: bool
  pb_Hostid :: "32 word"
  pb_Nsid :: "32 word"
  pb_Maprange :: "32 word"

text \<open>
  \<^verbatim>\<open>idmap.IdmapEntry\<close> (package shared/idmap): the daemon's own entry. Its ids are
  \<^verbatim>\<open>int64\<close>, as the conversions \<^verbatim>\<open>int32(ctnIdmap.Hostid)\<close> on the source and
  \<^verbatim>\<open>int64(*idmapSet.Hostid)\<close> on the sink show.
\<close>

record IdmapEntry =
  Isuid :: bool
  Isgid :: bool
  Hostid :: "64 word"
  Nsid :: "64 word"
  Maprange :: "64 word"

subsection \<open>String helpers of package shared\<close>

text \<open>
  \<^verbatim>\<open>strings.Index(s, sep)\<close>: the position of the first occurrence of \<open>sep\<close> in \<open>s\<close>,
  \<open>None\<close> for Go's \<open>-1\<close>.
\<close>

fun has_prefix :: "string \<Rightarrow> string \<Rightarrow> bool" where
  "has_prefix s [] = True"
| "has_prefix [] (c # cs) = False"
| "has_prefix (x # xs) (c # cs) = (x = c \<and> has_prefix xs cs)"

fun Index :: "string \<Rightarrow> string \<Rightarrow> nat option" where
  "Index [] sep = (if has_prefix [] sep then Some 0 else None)"
| "Index (x # xs) sep =
     (if has_prefix (x # xs) sep then Some 0
      else (case Index xs sep of None \<Rightarrow> None | Some m \<Rightarrow> Some (Suc m)))"

text \<open>
  \<^verbatim>\<open>strings.SplitN(s, sep, n)\<close> for a non-empty separator and \<open>n > 0\<close>: at most \<open>n\<close>
  pieces, the last one the unsplit rest (Go's \<^verbatim>\<open>genSplit\<close> loop: cut at \<open>Index\<close> while
  fewer than \<open>n - 1\<close> pieces were cut, then append what is left).
\<close>

fun SplitN :: "string \<Rightarrow> string \<Rightarrow> nat \<Rightarrow> string list" where
  "SplitN s sep 0 = []"
| "SplitN s sep (Suc 0) = [s]"
| "SplitN s sep (Suc (Suc k)) =
     (case Index s sep of
        None \<Rightarrow> [s]
      | Some m \<Rightarrow> take m s # SplitN (drop (m + length sep) s) sep (Suc k))"

definition SnapshotDelimiter :: string where
  "SnapshotDelimiter = ''/''"

text \<open>\<^verbatim>\<open>func IsSnapshot(name string) bool\<close>: \<^verbatim>\<open>strings.Contains\<close>.\<close>

definition IsSnapshot :: "string \<Rightarrow> bool" where
  "IsSnapshot name = (Index name SnapshotDelimiter \<noteq> None)"

text \<open>
  \<^verbatim>\<open>func ExtractSnapshotName(name string) string\<close> returns
  \<^verbatim>\<open>strings.SplitN(name, SnapshotDelimiter, 2)[1]\<close>. The index is not checked by the
  source: on a slice of one element Go panics (index out of range), which is \<open>None\<close> here.
\<close>

definition ExtractSnapshotName :: "string \<Rightarrow> string option" where
  "ExtractSnapshotName name =
     (let parts = SplitN name SnapshotDelimiter 2
      in if 1 < length parts then Some (parts ! 1) else None)"

subsection \<open>IDMap entries on the wire\<close>

text \<open>
  Source, \<^verbatim>\<open>migrationSourceWs.Do\<close>: the loop over \<^verbatim>\<open>idmapset.Idmap\<close>. Go's
  \<^verbatim>\<open>int32(x)\<close> on an \<^verbatim>\<open>int64\<close> keeps the low 32 bits.
\<close>

definition idmap_to_proto :: "IdmapEntry \<Rightarrow> IDMapType" where
  "idmap_to_proto ctnIdmap =
     \<lparr> pb_Isuid = Isuid ctnIdmap,
       pb_Isgid = Isgid ctnIdmap,
       pb_Hostid = ucast (Hostid ctnIdmap),
       pb_Nsid = ucast (Nsid ctnIdmap),
       pb_Maprange = ucast (Maprange ctnIdmap) \<rparr>"

definition source_idmaps :: "IdmapEntry list option \<Rightarrow> IDMapType list" where
  "source_idmaps idmapset =
     (case idmapset of None \<Rightarrow> [] | Some entries \<Rightarrow> map idmap_to_proto entries)"

text \<open>
  Sink, the restore goroutine of \<^verbatim>\<open>migrationSink.Do\<close>: Go's \<^verbatim>\<open>int64(x)\<close> on an
  \<^verbatim>\<open>int32\<close> extends the sign.
\<close>

definition proto_to_idmap :: "IDMapType \<Rightarrow> IdmapEntry" where
  "proto_to_idmap idmapSet =
     \<lparr> Isuid = pb_Isuid idmapSet,
       Isgid = pb_Isgid idmapSet,
       Hostid = scast (pb_Hostid idmapSet),
       Nsid = scast (pb_Nsid idmapSet),
       Maprange = scast (pb_Maprange idmapSet) \<rparr>"

text \<open>The values of an entry as Go integers, and the \<^verbatim>\<open>int32\<close> range.\<close>

definition fits_int32 :: "64 word \<Rightarrow> bool" where
  "fits_int32 x = (- (2 ^ 31) \<le> sint x \<and> sint x < 2 ^ 31)"

definition wire_roundtrip :: "IdmapEntry \<Rightarrow> IdmapEntry" where
  "wire_roundtrip e = proto_to_idmap (idmap_to_proto e)"

subsection \<open>Containers and snapshot descriptors\<close>

text \<open>
  The part of the \<^verbatim>\<open>container\<close> interface that the migration code reads. A Go map is
  given as the list of its entries in the order the \<^verbatim>\<open>range\<close> loop visits them.
  \<^verbatim>\<open>Architecture()\<close> is a Go \<^verbatim>\<open>int\<close> (64 bits).
\<close>

record container =
  Name :: string
  LocalConfig :: "(string \<times> string) list"
  LocalDevices :: "(string \<times> (string \<times> string) list) list"
  Profiles :: "string list"
  IsEphemeral :: bool
  Architecture :: "64 word"
  IsStateful :: bool

text \<open>
  The generated messages hold their strings behind pointers. Where the source takes the
  address of a variable that it goes on writing (\<^verbatim>\<open>&name\<close> of a \<^verbatim>\<open>range\<close> variable),
  the pointer is an address into a store of string variables; where it takes the address
  of a copy made for that purpose (\<^verbatim>\<open>kCopy\<close>, \<^verbatim>\<open>vCopy\<close>, \<^verbatim>\<open>isEphemeral\<close>, \<^verbatim>\<open>arch\<close>,
  \<^verbatim>\<open>stateful\<close>) the field holds the value.
\<close>

type_synonym addr = nat

type_synonym store = "string list"

definition new_var :: "string \<Rightarrow> store \<Rightarrow> addr \<times> store" where
  "new_var v h = (length h, h @ [v])"

definition assign :: "addr \<Rightarrow> string \<Rightarrow> store \<Rightarrow> store" where
  "assign a v h = h[a := v]"

definition deref :: "store \<Rightarrow> addr \<Rightarrow> string" where
  "deref h a = h ! a"

record Config =
  pb_Key :: string
  pb_Value :: string

record Device =
  pb_Device_Name :: addr
  pb_Device_Config :: "Config list"

record Snapshot =
  pb_Name :: addr
  pb_LocalConfig :: "Config list"
  pb_Profiles :: "string list"
  pb_Ephemeral :: bool
  pb_LocalDevices :: "Device list"
  pb_Architecture :: "32 word"
  pb_Stateful :: bool

text \<open>What a reader of the message (the encoder, the storage sink) finds behind the pointers.\<close>

record DeviceMsg =
  msg_Device_Name :: string
  msg_Device_Config :: "Config list"

record SnapshotMsg =
  msg_Name :: string
  msg_LocalConfig :: "Config list"
  msg_Profiles :: "string list"
  msg_Ephemeral :: bool
  msg_LocalDevices :: "DeviceMsg list"
  msg_Architecture :: "32 word"
  msg_Stateful :: bool

definition read_Device :: "store \<Rightarrow> Device \<Rightarrow> DeviceMsg" where
  "read_Device h d =
     \<lparr> msg_Device_Name = deref h (pb_Device_Name d),
       msg_Device_Config = pb_Device_Config d \<rparr>"

definition read_Snapshot :: "store \<Rightarrow> Snapshot \<Rightarrow> SnapshotMsg" where
  "read_Snapshot h s =
     \<lparr> msg_Name = deref h (pb_Name s),
       msg_LocalConfig = pb_LocalConfig s,
       msg_Profiles = pb_Profiles s,
       msg_Ephemeral = pb_Ephemeral s,
       msg_LocalDevices = map (read_Device h) (pb_LocalDevices s),
       msg_Architecture = pb_Architecture s,
       msg_Stateful = pb_Stateful s \<rparr>"

text \<open>
  \<^verbatim>\<open>func snapshotToProtobuf(c container) *migration.Snapshot\<close>. The loop over the config
  copies key and value on every round. The loop over the devices copies the properties
  but stores \<^verbatim>\<open>&name\<close>, the address of the loop's own variable, in every device.
\<close>

definition config_entries :: "(string \<times> string) list \<Rightarrow> Config list" where
  "config_entries kvs = map (\<lambda>(k, v). \<lparr> pb_Key = k, pb_Value = v \<rparr>) kvs"

fun devices_loop ::
  "addr \<Rightarrow> (string \<times> (string \<times> string) list) list \<Rightarrow> Device list \<Rightarrow> store
   \<Rightarrow> Device list \<times> store" where
  "devices_loop name [] devices h = (devices, h)"
| "devices_loop name ((n, d) # rest) devices h =
     devices_loop name rest
       (devices @ [\<lparr> pb_Device_Name = name, pb_Device_Config = config_entries d \<rparr>])
       (assign name n h)"

definition snapshotToProtobuf :: "container \<Rightarrow> store \<Rightarrow> Snapshot \<times> store" where
  "snapshotToProtobuf c h =
     (let config = config_entries (LocalConfig c);
          (name, h1) = new_var [] h;
          (devices, h2) = devices_loop name (LocalDevices c) [] h1;
          parts = SplitN (Name c) SnapshotDelimiter 2;
          (last_part, h3) = new_var (last parts) h2
      in (\<lparr> pb_Name = last_part,
            pb_LocalConfig = config,
            pb_Profiles = Profiles c,
            pb_Ephemeral = IsEphemeral c,
            pb_LocalDevices = devices,
            pb_Architecture = ucast (Architecture c),
            pb_Stateful = IsStateful c \<rparr>, h3))"

subsection \<open>The header\<close>

text \<open>
  \<^verbatim>\<open>message MigrationHeader\<close> as it is on the wire: \<open>fs\<close> required, \<open>criu\<close> optional,
  the snapshot descriptors as a reader finds them.
\<close>

record MigrationHeader =
  pb_Fs :: MigrationFSType
  pb_Criu :: "CRIUType option"
  pb_Idmap :: "IDMapType list"
  pb_SnapshotNames :: "string list"
  pb_Snapshots :: "SnapshotMsg list"

record MigrationControl =
  pb_Success :: bool
  pb_Message :: "string option"

text \<open>
  Source, \<^verbatim>\<open>migrationSourceWs.Do\<close>: the loop over \<^verbatim>\<open>driver.Snapshots()\<close> that fills
  \<^verbatim>\<open>snapshots\<close> and \<^verbatim>\<open>snapshotNames\<close>. \<open>None\<close> is the panic of \<^verbatim>\<open>ExtractSnapshotName\<close>.
\<close>

fun snapshots_loop ::
  "container list \<Rightarrow> Snapshot list \<Rightarrow> string list \<Rightarrow> store
   \<Rightarrow> (Snapshot list \<times> string list \<times> store) option" where
  "snapshots_loop [] snapshots snapshotNames h = Some (snapshots, snapshotNames, h)"
| "snapshots_loop (snap # fullSnaps) snapshots snapshotNames h =
     (let (p, h1) = snapshotToProtobuf snap h
      in case ExtractSnapshotName (Name snap) of
           None \<Rightarrow> None
         | Some n \<Rightarrow> snapshots_loop fullSnaps (snapshots @ [p]) (snapshotNames @ [n]) h1)"

text \<open>
  Sink, the file system goroutine of \<^verbatim>\<open>migrationSink.Do\<close>: the descriptors handed to
  the storage sink. When the two lists of the header differ in length the loop builds one
  descriptor per name from the sink's own container and stores \<^verbatim>\<open>&name\<close>, the address
  of the \<^verbatim>\<open>range\<close> variable, in each; the storage sink reads them after the loop.
\<close>

fun legacy_loop ::
  "addr \<Rightarrow> container \<Rightarrow> string list \<Rightarrow> Snapshot list \<Rightarrow> store \<Rightarrow> Snapshot list \<times> store" where
  "legacy_loop name c [] snapshots h = (snapshots, h)"
| "legacy_loop name c (n # names) snapshots h =
     (let h1 = assign name n h;
          (base, h2) = snapshotToProtobuf c h1;
          base = base\<lparr> pb_Name := name \<rparr>
      in legacy_loop name c names (snapshots @ [base]) h2)"

definition sink_snapshots :: "MigrationHeader \<Rightarrow> container \<Rightarrow> SnapshotMsg list" where
  "sink_snapshots header c =
     (if length (pb_SnapshotNames header) \<noteq> length (pb_Snapshots header) then
        (let (name, h) = new_var [] [];
             (snapshots, h') = legacy_loop name c (pb_SnapshotNames header) [] h
         in map (read_Snapshot h') snapshots)
      else pb_Snapshots header)"

text \<open>The descriptor of a container as the claim words it: the container's own, under a given name.\<close>

definition descriptor_named :: "container \<Rightarrow> string \<Rightarrow> SnapshotMsg" where
  "descriptor_named c n =
     (let (p, h) = snapshotToProtobuf c [] in (read_Snapshot h p)\<lparr> msg_Name := n \<rparr>)"

subsection \<open>Errors, events and results\<close>

text \<open>
  A Go \<^verbatim>\<open>error\<close>: \<^verbatim>\<open>os.ErrPermission\<close>, or one made by \<^verbatim>\<open>fmt.Errorf\<close> (also the
  errors handed back by the calls of the environment). A nil error is \<open>None\<close>.
\<close>

datatype error = ErrPermission | Errorf string

type_synonym conn = nat

text \<open>
  The two source drivers of \<^verbatim>\<open>migrationSourceWs.Do\<close>: the one returned by
  \<^verbatim>\<open>s.container.Storage().MigrationSource\<close> and the one returned by
  \<^verbatim>\<open>rsyncMigrationSource\<close>; and the two sinks of \<^verbatim>\<open>migrationSink.Do\<close>:
  \<^verbatim>\<open>c.src.container.Storage().MigrationSink\<close> and \<^verbatim>\<open>rsyncMigrationSink\<close>.
\<close>

datatype source_driver = StorageMigrationSource | rsyncMigrationSource

datatype sink_driver = StorageMigrationSink | rsyncMigrationSink

text \<open>The calls that leave the process, in the order \<^verbatim>\<open>Do\<close> or \<^verbatim>\<open>Connect\<close> makes them.\<close>

datatype event =
    EvUpgrade
  | EvProtoSend "conn option" MigrationHeader
  | EvProtoRecvHeader
  | EvProtoRecvControl
  | EvProtoSendControl "conn option" "error option"
  | EvWriteCloseMessage conn
  | EvClose conn
  | EvStorageStart
  | EvStorageStop
  | EvSendWhileRunning source_driver "conn option"
  | EvSendAfterCheckpoint source_driver "conn option"
  | EvCleanup source_driver
  | EvTempDir
  | EvRemoveAll string
  | EvOperationCreate
  | EvWriteActionScript
  | EvOperationRun
  | EvMigrateDump bool
  | EvRsyncSend "conn option"
  | EvRestoreSuccess bool
  | EvDial string
  | EvDelete
  | EvTemplateApply

text \<open>
  How a call ends: it returns; or its goroutine blocks and nothing in the program can
  wake it (a second \<^verbatim>\<open>Lock\<close> of a mutex the goroutine holds itself, a receive on a
  channel with no sender left, the receive on \<^verbatim>\<open>allConnected\<close> before the channels are
  attached); or it panics.
\<close>

datatype 'a res = Ret 'a | Blocked | Panic

definition andThen :: "'a res \<times> 's \<Rightarrow> ('a \<Rightarrow> 's \<Rightarrow> 'b res \<times> 's) \<Rightarrow> 'b res \<times> 's" where
  "andThen m f = (case m of (Ret a, s) \<Rightarrow> f a s | (Blocked, s) \<Rightarrow> (Blocked, s) | (Panic, s) \<Rightarrow> (Panic, s))"

subsection \<open>migrationFields\<close>

text \<open>
  \<^verbatim>\<open>type migrationFields struct\<close>. \<open>controlLock\<close> is the \<^verbatim>\<open>sync.Mutex\<close>: True while
  locked. \<open>trace\<close> is not a field of the struct: it collects the events.
\<close>

record migrationFields =
  live :: bool
  controlSecret :: string
  controlConn :: "conn option"
  controlLock :: bool
  criuSecret :: string
  criuConn :: "conn option"
  fsSecret :: string
  fsConn :: "conn option"
  trace :: "event list"

definition emit :: "event \<Rightarrow> 'a migrationFields_scheme \<Rightarrow> 'a migrationFields_scheme" where
  "emit e c = c\<lparr> trace := trace c @ [e] \<rparr>"

text \<open>
  \<^verbatim>\<open>sync.Mutex\<close> is not reentrant: \<^verbatim>\<open>Lock\<close> on a locked mutex blocks until another
  goroutine unlocks it. Only the goroutine that runs \<^verbatim>\<open>Do\<close> ever locks or unlocks
  \<^verbatim>\<open>controlLock\<close> (through \<^verbatim>\<open>send\<close>, \<^verbatim>\<open>sendControl\<close> and \<^verbatim>\<open>disconnect\<close>), so a
  \<^verbatim>\<open>Lock\<close> that finds it locked never returns.
\<close>

definition Lock :: "'a migrationFields_scheme \<Rightarrow> unit res \<times> 'a migrationFields_scheme" where
  "Lock c = (if controlLock c then (Blocked, c) else (Ret (), c\<lparr> controlLock := True \<rparr>))"

definition Unlock :: "'a migrationFields_scheme \<Rightarrow> 'a migrationFields_scheme" where
  "Unlock c = c\<lparr> controlLock := False \<rparr>"

text \<open>
  \<^verbatim>\<open>func (c *migrationFields) send(m proto.Message) error\<close>: lock, \<^verbatim>\<open>ProtoSend\<close>,
  deferred unlock. \<open>r\<close> is what \<^verbatim>\<open>migration.ProtoSend\<close> returns.
\<close>

definition send ::
  "MigrationHeader \<Rightarrow> error option \<Rightarrow> 'a migrationFields_scheme
   \<Rightarrow> error option res \<times> 'a migrationFields_scheme" where
  "send m r c =
     andThen (Lock c) (\<lambda>_ c1.
       (Ret r, Unlock (emit (EvProtoSend (controlConn c1) m) c1)))"

text \<open>
  \<^verbatim>\<open>func (c *migrationFields) disconnect()\<close>: under the lock, a close frame on the control
  connection, which is then forgotten; then \<^verbatim>\<open>Close\<close> on the other two.
\<close>

definition disconnect :: "'a migrationFields_scheme \<Rightarrow> unit res \<times> 'a migrationFields_scheme" where
  "disconnect c =
     andThen (Lock c) (\<lambda>_ c1.
       let c2 = (case controlConn c1 of
                   Some k \<Rightarrow> (emit (EvWriteCloseMessage k) c1)\<lparr> controlConn := None \<rparr>
                 | None \<Rightarrow> c1);
           c3 = Unlock c2;
           c4 = (case fsConn c3 of Some k \<Rightarrow> emit (EvClose k) c3 | None \<Rightarrow> c3);
           c5 = (case criuConn c4 of Some k \<Rightarrow> emit (EvClose k) c4 | None \<Rightarrow> c4)
       in (Ret (), c5))"

text \<open>
  \<^verbatim>\<open>func (c *migrationFields) sendControl(err error)\<close>: \<^verbatim>\<open>Lock\<close>, deferred \<^verbatim>\<open>Unlock\<close>,
  \<^verbatim>\<open>ProtoSendControl\<close>, and for a non-nil error \<^verbatim>\<open>c.disconnect()\<close>, called while the
  lock is still held (the deferred unlock runs when \<^verbatim>\<open>sendControl\<close> returns).
\<close>

definition sendControl ::
  "error option \<Rightarrow> 'a migrationFields_scheme \<Rightarrow> unit res \<times> 'a migrationFields_scheme" where
  "sendControl err c =
     andThen (Lock c) (\<lambda>_ c1.
       let c2 = emit (EvProtoSendControl (controlConn c1) err) c1
       in if err \<noteq> None
          then andThen (disconnect c2) (\<lambda>_ c3. (Ret (), Unlock c3))
          else (Ret (), Unlock c2))"

subsection \<open>The source: Connect\<close>

text \<open>
  \<^verbatim>\<open>type migrationSourceWs struct\<close>. \<open>allConnected\<close> is the channel
  \<^verbatim>\<open>make(chan bool, 1)\<close>: the number of values it holds, at most one.
\<close>

record migrationSourceWs = migrationFields +
  allConnected :: nat

datatype channel = control | criu | fs

text \<open>The \<^verbatim>\<open>switch secret\<close> of \<^verbatim>\<open>Connect\<close>, cases in the order of the source.\<close>

definition match_secret :: "migrationSourceWs \<Rightarrow> string \<Rightarrow> channel option" where
  "match_secret s secret =
     (if secret = controlSecret s then Some control
      else if secret = criuSecret s then Some criu
      else if secret = fsSecret s then Some fs
      else None)"

definition attach :: "channel \<Rightarrow> conn \<Rightarrow> migrationSourceWs \<Rightarrow> migrationSourceWs" where
  "attach ch k s =
     (case ch of
        control \<Rightarrow> s\<lparr> controlConn := Some k \<rparr>
      | criu \<Rightarrow> s\<lparr> criuConn := Some k \<rparr>
      | fs \<Rightarrow> s\<lparr> fsConn := Some k \<rparr>)"

text \<open>
  \<^verbatim>\<open>func (s *migrationSourceWs) Connect(op, r, w) error\<close>. \<open>secret\<close> is
  \<^verbatim>\<open>r.FormValue("secret")\<close>, \<open>upgrade\<close> what \<^verbatim>\<open>WebsocketUpgrader.Upgrade\<close> returns.
  The send on \<^verbatim>\<open>allConnected\<close> blocks while the channel is full.
\<close>

definition Connect ::
  "string \<Rightarrow> error + conn \<Rightarrow> migrationSourceWs \<Rightarrow> error option res \<times> migrationSourceWs" where
  "Connect secret upgrade s =
     (if secret = [] then (Ret (Some (Errorf ''missing secret'')), s)
      else case match_secret s secret of
        None \<Rightarrow> (Ret (Some ErrPermission), s)
      | Some ch \<Rightarrow>
          (let s1 = emit EvUpgrade s
           in case upgrade of
                Inl err \<Rightarrow> (Ret (Some err), s1)
              | Inr k \<Rightarrow>
                  (let s2 = attach ch k s1
                   in if controlConn s2 \<noteq> None \<and> (\<not> live s2 \<or> criuConn s2 \<noteq> None)
                         \<and> fsConn s2 \<noteq> None
                      then (if allConnected s2 < 1
                            then (Ret None, s2\<lparr> allConnected := allConnected s2 + 1 \<rparr>)
                            else (Blocked, s2))
                      else (Ret None, s2))))"

subsection \<open>The source: Do\<close>

text \<open>
  What the calls of \<^verbatim>\<open>migrationSourceWs.Do\<close> return in one run. \<open>src_dumpDone_first\<close>
  says which case the \<^verbatim>\<open>select\<close> takes: the action script reported the end of the dump
  before \<^verbatim>\<open>s.container.Migrate\<close> returned, or \<^verbatim>\<open>Migrate\<close> returned first.
\<close>

record source_env =
  src_StorageStart :: "error option"
  src_IdmapSet :: "error + IdmapEntry list option"
  src_MigrationType :: MigrationFSType
  src_MigrationSource :: "error option"
  src_Snapshots :: "container list"
  src_ProtoSend :: "error option"
  src_ProtoRecv_header :: "error + MigrationHeader"
  src_SendWhileRunning :: "source_driver \<Rightarrow> error option"
  src_TempDir :: "error + string"
  src_RuntimeLiblxcVersionAtLeast_2_0_4 :: bool
  src_RandomCryptoString :: "error + string"
  src_operationCreate :: "error option"
  src_writeActionScript :: "error option"
  src_actionScriptOp_Run :: "error option"
  src_Migrate :: "error option"
  src_dumpDone_first :: bool
  src_RsyncSend :: "error option"
  src_SendAfterCheckpoint :: "source_driver \<Rightarrow> error option"
  src_ProtoRecv_control :: "error + MigrationControl"

text \<open>The closure \<^verbatim>\<open>abort\<close>: \<^verbatim>\<open>driver.Cleanup(); s.sendControl(err); return err\<close>.\<close>

definition abort ::
  "source_driver \<Rightarrow> error option \<Rightarrow> migrationSourceWs \<Rightarrow> error option res \<times> migrationSourceWs" where
  "abort driver err s =
     andThen (sendControl err (emit (EvCleanup driver) s)) (\<lambda>_ s1. (Ret err, s1))"

text \<open>
  Lines 520 to 541: \<^verbatim>\<open>driver.Cleanup()\<close>, the final control message, and for a live
  migration the hand-over to the action script. \<open>dump_goroutine\<close> tells whether the
  goroutine that sends on \<^verbatim>\<open>dumpSuccess\<close> was started: the branch for a liblxc older
  than 2.0.4 starts none, so its receive on \<^verbatim>\<open>dumpSuccess\<close> has no sender.
  \<^verbatim>\<open>*msg.Message\<close> on a message without the optional field is a nil dereference.
\<close>

definition source_Do_finish ::
  "source_env \<Rightarrow> source_driver \<Rightarrow> bool \<Rightarrow> migrationSourceWs
   \<Rightarrow> error option res \<times> migrationSourceWs" where
  "source_Do_finish env driver dump_goroutine s =
     (let s1 = emit (EvCleanup driver) s;
          s2 = emit EvProtoRecvControl s1
      in case src_ProtoRecv_control env of
           Inl err \<Rightarrow> andThen (disconnect s2) (\<lambda>_ s3. (Ret (Some err), s3))
         | Inr msg \<Rightarrow>
             andThen
               (if live s2
                then (let s3 = emit (EvRestoreSuccess (pb_Success msg)) s2
                      in if dump_goroutine then (Ret (), s3) else (Blocked, s3))
                else (Ret (), s2))
               (\<lambda>_ s4.
                  if \<not> pb_Success msg
                  then (case pb_Message msg of
                          None \<Rightarrow> (Panic, s4)
                        | Some m \<Rightarrow> (Ret (Some (Errorf m)), s4))
                  else (Ret None, s4)))"

text \<open>Lines 507 to 518: the checkpoint image, then the file system delta.\<close>

definition source_Do_after_dump ::
  "source_env \<Rightarrow> source_driver \<Rightarrow> bool \<Rightarrow> migrationSourceWs
   \<Rightarrow> error option res \<times> migrationSourceWs" where
  "source_Do_after_dump env driver dump_goroutine s =
     (let s1 = emit (EvRsyncSend (criuConn s)) s
      in case src_RsyncSend env of
           Some err \<Rightarrow> abort driver (Some err) s1
         | None \<Rightarrow>
             (let s2 = emit (EvSendAfterCheckpoint driver (fsConn s1)) s1
              in case src_SendAfterCheckpoint env driver of
                   Some err \<Rightarrow> abort driver (Some err) s2
                 | None \<Rightarrow> source_Do_finish env driver dump_goroutine s2))"

text \<open>
  Lines 387 to 482, liblxc at least 2.0.4: the action script operation, the dump in a
  goroutine, and the \<^verbatim>\<open>select\<close> on \<^verbatim>\<open>dumpSuccess\<close> and \<^verbatim>\<open>dumpDone\<close>.
\<close>

definition source_Do_dump_action_script ::
  "source_env \<Rightarrow> source_driver \<Rightarrow> string \<Rightarrow> migrationSourceWs
   \<Rightarrow> error option res \<times> migrationSourceWs" where
  "source_Do_dump_action_script env driver checkpointDir s =
     (case src_RandomCryptoString env of
        Inl err \<Rightarrow> abort driver (Some err) (emit (EvRemoveAll checkpointDir) s)
      | Inr actionScriptOpSecret \<Rightarrow>
          (let s1 = emit EvOperationCreate s
           in case src_operationCreate env of
                Some err \<Rightarrow> abort driver (Some err) (emit (EvRemoveAll checkpointDir) s1)
              | None \<Rightarrow>
                  (let s2 = emit EvWriteActionScript s1
                   in case src_writeActionScript env of
                        Some err \<Rightarrow> abort driver (Some err) (emit (EvRemoveAll checkpointDir) s2)
                      | None \<Rightarrow>
                          (let s3 = emit EvOperationRun s2
                           in case src_actionScriptOp_Run env of
                                Some err \<Rightarrow>
                                  abort driver (Some err) (emit (EvRemoveAll checkpointDir) s3)
                              | None \<Rightarrow>
                                  (let s4 = emit (EvMigrateDump True) s3
                                   in if src_dumpDone_first env
                                      then source_Do_after_dump env driver True s4
                                      else abort driver (src_Migrate env) s4)))))"

text \<open>
  Lines 483 to 498, older liblxc: the dump is run to its end; the deferred
  \<^verbatim>\<open>os.RemoveAll(checkpointDir)\<close> runs when \<^verbatim>\<open>Do\<close> returns or panics.
\<close>

definition source_Do_dump_legacy ::
  "source_env \<Rightarrow> source_driver \<Rightarrow> string \<Rightarrow> migrationSourceWs
   \<Rightarrow> error option res \<times> migrationSourceWs" where
  "source_Do_dump_legacy env driver checkpointDir s =
     (let s1 = emit (EvMigrateDump False) s
      in case (case src_Migrate env of
                 Some err \<Rightarrow> abort driver (Some err) s1
               | None \<Rightarrow> source_Do_after_dump env driver False s1) of
           (Blocked, s2) \<Rightarrow> (Blocked, s2)
         | (r, s2) \<Rightarrow> (r, emit (EvRemoveAll checkpointDir) s2))"

text \<open>Lines 375 to 386: the checkpoint type of the echoed header, and the checkpoint directory.\<close>

definition source_Do_live ::
  "source_env \<Rightarrow> MigrationHeader \<Rightarrow> source_driver \<Rightarrow> migrationSourceWs
   \<Rightarrow> error option res \<times> migrationSourceWs" where
  "source_Do_live env header driver s =
     (case pb_Criu header of
        None \<Rightarrow> abort driver (Some (Errorf ''Got no CRIU socket type for live migration'')) s
      | Some t \<Rightarrow>
          if t \<noteq> CRIU_RSYNC
          then abort driver (Some (Errorf ''Formats other than criu rsync not understood'')) s
          else (let s1 = emit EvTempDir s
                in case src_TempDir env of
                     Inl err \<Rightarrow> abort driver (Some err) s1
                   | Inr checkpointDir \<Rightarrow>
                       if src_RuntimeLiblxcVersionAtLeast_2_0_4 env
                       then source_Do_dump_action_script env driver checkpointDir s1
                       else source_Do_dump_legacy env driver checkpointDir s1))"

text \<open>Lines 368 to 541: everything after the closure \<^verbatim>\<open>abort\<close> is defined.\<close>

definition source_Do_transfer ::
  "source_env \<Rightarrow> MigrationHeader \<Rightarrow> source_driver \<Rightarrow> migrationSourceWs
   \<Rightarrow> error option res \<times> migrationSourceWs" where
  "source_Do_transfer env header driver s =
     (let s1 = emit (EvSendWhileRunning driver (fsConn s)) s
      in case src_SendWhileRunning env driver of
           Some err \<Rightarrow> abort driver (Some err) s1
         | None \<Rightarrow>
             if live s1 then source_Do_live env header driver s1
             else source_Do_finish env driver False s1)"

text \<open>
  Lines 348 to 353: the echoed header against the source's own type. The error of
  \<^verbatim>\<open>rsyncMigrationSource\<close> is dropped by the source (\<^verbatim>\<open>driver, _ =\<close>).
\<close>

definition source_negotiate ::
  "MigrationFSType \<Rightarrow> MigrationHeader \<Rightarrow> source_driver
   \<Rightarrow> MigrationFSType \<times> MigrationHeader \<times> source_driver" where
  "source_negotiate myType header driver =
     (if pb_Fs header \<noteq> myType
      then (RSYNC, header\<lparr> pb_Fs := RSYNC \<rparr>, rsyncMigrationSource)
      else (myType, header, driver))"

text \<open>The opening header of lines 322 to 329.\<close>

definition opening_header ::
  "MigrationFSType \<Rightarrow> CRIUType option \<Rightarrow> IDMapType list \<Rightarrow> string list \<Rightarrow> SnapshotMsg list
   \<Rightarrow> MigrationHeader" where
  "opening_header myType criuType idmaps snapshotNames snapshots =
     \<lparr> pb_Fs = myType, pb_Criu = criuType, pb_Idmap = idmaps,
       pb_SnapshotNames = snapshotNames, pb_Snapshots = snapshots \<rparr>"

text \<open>The driver the source transfers with, given the echoed header.\<close>

definition negotiated_driver :: "source_env \<Rightarrow> MigrationHeader \<Rightarrow> source_driver" where
  "negotiated_driver env echo =
     snd (snd (source_negotiate (src_MigrationType env) echo StorageMigrationSource))"

text \<open>
  Lines 306 to 329: the snapshot lists (empty when no driver was obtained) and the header
  built from them. \<open>None\<close> is the panic of \<^verbatim>\<open>ExtractSnapshotName\<close>. The encoder reads
  the descriptors when the header is sent, after the loop.
\<close>

definition build_header ::
  "source_env \<Rightarrow> CRIUType option \<Rightarrow> IdmapEntry list option \<Rightarrow> MigrationHeader option" where
  "build_header env criuType idmapset =
     (case (if src_MigrationSource env = None then snapshots_loop (src_Snapshots env) [] [] []
            else Some ([], [], [])) of
        None \<Rightarrow> None
      | Some (snapshots, snapshotNames, h) \<Rightarrow>
          Some (opening_header (src_MigrationType env) criuType (source_idmaps idmapset)
                  snapshotNames (map (read_Snapshot h) snapshots)))"

text \<open>Lines 285 to 366: id map, driver, snapshots, and the exchange of the two headers.\<close>

definition source_Do_header ::
  "source_env \<Rightarrow> CRIUType option \<Rightarrow> migrationSourceWs
   \<Rightarrow> error option res \<times> migrationSourceWs" where
  "source_Do_header env criuType s =
     (case src_IdmapSet env of
        Inl err \<Rightarrow> (Ret (Some err), s)
      | Inr idmapset \<Rightarrow>
          (case build_header env criuType idmapset of
             None \<Rightarrow> (Panic, s)
           | Some header \<Rightarrow>
               andThen (send header (src_ProtoSend env) s) (\<lambda>err s1.
                 case err of
                   Some e \<Rightarrow> andThen (sendControl (Some e) s1) (\<lambda>_ s2. (Ret (Some e), s2))
                 | None \<Rightarrow>
                     (case src_MigrationSource env of
                        Some fsErr \<Rightarrow>
                          andThen (sendControl (Some fsErr) s1) (\<lambda>_ s2. (Ret (Some fsErr), s2))
                      | None \<Rightarrow>
                          (let s2 = emit EvProtoRecvHeader s1
                           in case src_ProtoRecv_header env of
                                Inl e \<Rightarrow>
                                  andThen (sendControl (Some e) s2) (\<lambda>_ s3. (Ret (Some e), s3))
                              | Inr echo \<Rightarrow>
                                  (let (myType, header', driver) =
                                         source_negotiate (src_MigrationType env) echo
                                           StorageMigrationSource
                                   in source_Do_transfer env header' driver s2))))))"

text \<open>
  \<^verbatim>\<open>func (s *migrationSourceWs) Do(migrateOp *operation) error\<close>: the receive on
  \<^verbatim>\<open>allConnected\<close>, and for a container that is not running \<^verbatim>\<open>StorageStart\<close> with the
  deferred \<^verbatim>\<open>StorageStop\<close> (deferred calls run on return and on panic, not in a
  goroutine that stays blocked).
\<close>

definition source_Do :: "source_env \<Rightarrow> migrationSourceWs \<Rightarrow> error option res \<times> migrationSourceWs" where
  "source_Do env s =
     (if allConnected s = 0 then (Blocked, s)
      else (let s0 = s\<lparr> allConnected := allConnected s - 1 \<rparr>
            in if \<not> live s0
               then (let s1 = emit EvStorageStart s0
                     in case src_StorageStart env of
                          Some err \<Rightarrow> (Ret (Some err), s1)
                        | None \<Rightarrow>
                            (case source_Do_header env None s1 of
                               (Blocked, s2) \<Rightarrow> (Blocked, s2)
                             | (r, s2) \<Rightarrow> (r, emit EvStorageStop s2)))
               else source_Do_header env (Some CRIU_RSYNC) s0))"

subsection \<open>The sink: Do\<close>

text \<open>What the goroutine of \<^verbatim>\<open>controlChannel\<close> delivers on its channel, if anything.\<close>

datatype source_event = NoMessage | ChannelClosed | Message MigrationControl

text \<open>
  What the calls of \<^verbatim>\<open>migrationSink.Do\<close> return in one run. \<open>snk_Extend\<close> is
  \<^verbatim>\<open>idmap.Extend\<close>, which is not among the sources. \<open>snk_source_first\<close> says that the
  \<^verbatim>\<open>select\<close> of the final loop finds the message of the source before the result of
  the restore.
\<close>

record sink_env =
  snk_Dial_control :: "error + conn"
  snk_Dial_fs :: "error + conn"
  snk_Dial_criu :: "error + conn"
  snk_ProtoRecv_header :: "error + MigrationHeader"
  snk_MigrationType :: MigrationFSType
  snk_ProtoSend :: "error option"
  snk_container :: container
  snk_Extend :: "IdmapEntry list \<Rightarrow> IdmapEntry \<Rightarrow> IdmapEntry list"
  snk_MigrationSink ::
    "sink_driver \<Rightarrow> bool \<Rightarrow> SnapshotMsg list \<Rightarrow> conn option \<Rightarrow> IdmapEntry list \<Rightarrow> error option"
  snk_ShiftIfNecessary :: "error option"
  snk_TempDir :: "error + string"
  snk_RsyncRecv :: "error option"
  snk_Migrate :: "error option"
  snk_source :: source_event
  snk_source_first :: bool
  snk_TemplateApply :: "error option"

text \<open>
  Lines 635 to 653: the echo header and the choice of the sink. The storage's own sink
  stays only when the source's type is the sink's.
\<close>

definition sink_negotiate ::
  "MigrationHeader \<Rightarrow> MigrationFSType \<Rightarrow> CRIUType option \<Rightarrow> sink_driver \<times> MigrationHeader" where
  "sink_negotiate header myType criuType =
     (let resp = \<lparr> pb_Fs = myType, pb_Criu = criuType, pb_Idmap = [],
                   pb_SnapshotNames = [], pb_Snapshots = [] \<rparr>
      in if pb_Fs header \<noteq> pb_Fs resp
         then (rsyncMigrationSink, resp\<lparr> pb_Fs := RSYNC \<rparr>)
         else (StorageMigrationSink, resp))"

text \<open>
  Lines 663 to 757, the restore goroutine and the file system goroutine inside it: the
  value sent on \<^verbatim>\<open>restore\<close>, from \<^verbatim>\<open>c.src.live\<close> and \<^verbatim>\<open>c.src.fsConn\<close>. Their calls run
  beside \<^verbatim>\<open>Do\<close> and are not in its trace.
\<close>

definition sink_srcIdmap :: "sink_env \<Rightarrow> MigrationHeader \<Rightarrow> IdmapEntry list" where
  "sink_srcIdmap env header =
     foldl (\<lambda>acc idmapSet. snk_Extend env acc (proto_to_idmap idmapSet)) [] (pb_Idmap header)"

definition fsTransfer_result ::
  "sink_env \<Rightarrow> sink_driver \<Rightarrow> MigrationHeader \<Rightarrow> bool \<Rightarrow> conn option \<Rightarrow> error option" where
  "fsTransfer_result env mySink header is_live fs_conn =
     (case snk_MigrationSink env mySink is_live (sink_snapshots header (snk_container env))
             fs_conn (sink_srcIdmap env header) of
        Some err \<Rightarrow> Some err
      | None \<Rightarrow> snk_ShiftIfNecessary env)"

definition restore_result ::
  "sink_env \<Rightarrow> sink_driver \<Rightarrow> MigrationHeader \<Rightarrow> bool \<Rightarrow> conn option \<Rightarrow> error option" where
  "restore_result env mySink header is_live fs_conn =
     (if is_live
      then (case snk_TempDir env of
              Inl err \<Rightarrow> Some err
            | Inr imagesDir \<Rightarrow>
                (case snk_RsyncRecv env of
                   Some err \<Rightarrow> Some err
                 | None \<Rightarrow>
                     (case fsTransfer_result env mySink header is_live fs_conn of
                        Some err \<Rightarrow> Some err
                      | None \<Rightarrow> snk_Migrate env)))
      else fsTransfer_result env mySink header is_live fs_conn)"

text \<open>
  The error paths of lines 612 to 660:
  \<^verbatim>\<open>c.src.container.Delete(); c.src.sendControl(err); return err\<close>.
\<close>

definition delete_and_report ::
  "error \<Rightarrow> migrationFields \<Rightarrow> error option res \<times> migrationFields" where
  "delete_and_report err c =
     andThen (sendControl (Some err) (emit EvDelete c)) (\<lambda>_ c1. (Ret (Some err), c1))"

text \<open>
  Lines 763 to 769, \<^verbatim>\<open>case err = <-restore\<close>:
  \<^verbatim>\<open>c.src.sendControl(err)\<close>, then for a non-nil error \<^verbatim>\<open>Delete\<close> and the error.
\<close>

definition sink_on_restore ::
  "error option \<Rightarrow> migrationFields \<Rightarrow> error option res \<times> migrationFields" where
  "sink_on_restore err c =
     andThen (sendControl err c) (\<lambda>_ c1.
       if err \<noteq> None then (Ret err, emit EvDelete c1) else (Ret None, c1))"

text \<open>
  Lines 761 to 792, the loop around the \<^verbatim>\<open>select\<close>. The goroutine of
  \<^verbatim>\<open>controlChannel\<close> delivers at most once and does not close the channel after a
  message, so after a success message of the source only \<^verbatim>\<open>restore\<close> is left.
\<close>

definition sink_loop ::
  "sink_env \<Rightarrow> error option \<Rightarrow> migrationFields \<Rightarrow> error option res \<times> migrationFields" where
  "sink_loop env restore c =
     (if snk_source_first env
      then (case snk_source env of
              NoMessage \<Rightarrow> sink_on_restore restore c
            | ChannelClosed \<Rightarrow>
                andThen (disconnect c) (\<lambda>_ c1.
                  (Ret (Some (Errorf ''Got error reading source'')), emit EvDelete c1))
            | Message msg \<Rightarrow>
                if \<not> pb_Success msg
                then andThen (disconnect c) (\<lambda>_ c1.
                       let c2 = emit EvDelete c1
                       in case pb_Message msg of
                            None \<Rightarrow> (Panic, c2)
                          | Some m \<Rightarrow> (Ret (Some (Errorf m)), c2))
                else (let c1 = emit EvTemplateApply c
                      in case snk_TemplateApply env of
                           Some err \<Rightarrow> (Ret (Some err), emit EvDelete c1)
                         | None \<Rightarrow> sink_on_restore restore c1))
      else sink_on_restore restore c)"

text \<open>Lines 628 to 660 and the start of the goroutines: the two headers.\<close>

definition sink_Do_header ::
  "sink_env \<Rightarrow> migrationFields \<Rightarrow> error option res \<times> migrationFields" where
  "sink_Do_header env c =
     (let c1 = emit EvProtoRecvHeader c
      in case snk_ProtoRecv_header env of
           Inl err \<Rightarrow> delete_and_report err c1
         | Inr header \<Rightarrow>
             (let criuType = (if live c1 then Some CRIU_RSYNC else None);
                  (mySink, resp) = sink_negotiate header (snk_MigrationType env) criuType
              in andThen (send resp (snk_ProtoSend env) c1) (\<lambda>err c2.
                   case err of
                     Some e \<Rightarrow> delete_and_report e c2
                   | None \<Rightarrow> sink_loop env (restore_result env mySink header (live c2) (fsConn c2)) c2)))"

text \<open>Lines 612 to 626: the file system and checkpoint connections.\<close>

definition sink_Do_connected ::
  "sink_env \<Rightarrow> migrationFields \<Rightarrow> error option res \<times> migrationFields" where
  "sink_Do_connected env c =
     (let c1 = emit (EvDial (fsSecret c)) c
      in case snk_Dial_fs env of
           Inl err \<Rightarrow> delete_and_report err (c1\<lparr> fsConn := None \<rparr>)
         | Inr k \<Rightarrow>
             (let c2 = c1\<lparr> fsConn := Some k \<rparr>
              in if live c2
                 then (let c3 = emit (EvDial (criuSecret c2)) c2
                       in case snk_Dial_criu env of
                            Inl err \<Rightarrow> delete_and_report err (c3\<lparr> criuConn := None \<rparr>)
                          | Inr k' \<Rightarrow> sink_Do_header env (c3\<lparr> criuConn := Some k' \<rparr>))
                 else sink_Do_header env c2))"

text \<open>
  \<^verbatim>\<open>func (c *migrationSink) Do(migrateOp *operation) error\<close> on \<^verbatim>\<open>c.src\<close>: the control
  connection, and the deferred \<^verbatim>\<open>c.src.disconnect()\<close> once it is up.
\<close>

definition sink_Do :: "sink_env \<Rightarrow> migrationFields \<Rightarrow> error option res \<times> migrationFields" where
  "sink_Do env c =
     (let c0 = emit (EvDial (controlSecret c)) c
      in case snk_Dial_control env of
           Inl err \<Rightarrow> (Ret (Some err), emit EvDelete (c0\<lparr> controlConn := None \<rparr>))
         | Inr k \<Rightarrow>
             (case sink_Do_connected env (c0\<lparr> controlConn := Some k \<rparr>) of
                (Blocked, c1) \<Rightarrow> (Blocked, c1)
              | (r, c1) \<Rightarrow> andThen (disconnect c1) (\<lambda>_ c2. (r, c2))))"

subsection \<open>The descriptor of a container, address by address\<close>

text \<open>
  What \<^verbatim>\<open>snapshotToProtobuf\<close> leaves behind when it starts with \<open>a\<close> cells in the
  store: the loop variable \<^verbatim>\<open>name\<close> of the devices loop in cell \<open>a\<close>, holding the name
  of the device visited last, and the snapshot's own name in cell \<open>a + 1\<close>.
\<close>

definition dev_name_var :: "container \<Rightarrow> string" where
  "dev_name_var c = (if LocalDevices c = [] then [] else fst (last (LocalDevices c)))"

definition snapshot_at :: "container \<Rightarrow> addr \<Rightarrow> Snapshot" where
  "snapshot_at c a =
     \<lparr> pb_Name = Suc a,
       pb_LocalConfig = config_entries (LocalConfig c),
       pb_Profiles = Profiles c,
       pb_Ephemeral = IsEphemeral c,
       pb_LocalDevices =
         map (\<lambda>(n, d). \<lparr> pb_Device_Name = a, pb_Device_Config = config_entries d \<rparr>)
           (LocalDevices c),
       pb_Architecture = ucast (Architecture c),
       pb_Stateful = IsStateful c \<rparr>"

subsection \<open>Reading a trace\<close>

text \<open>
  The events of one kind in a trace: the calls of \<^verbatim>\<open>driver.Cleanup\<close>, the headers sent
  and received on the control channel, the calls of \<^verbatim>\<open>container.Delete\<close>.
\<close>

datatype watch = Cleanups | HeaderMessages | Deletes

fun watched :: "watch \<Rightarrow> event \<Rightarrow> bool" where
  "watched Cleanups (EvCleanup d) = True"
| "watched HeaderMessages (EvProtoSend k m) = True"
| "watched HeaderMessages EvProtoRecvHeader = True"
| "watched Deletes EvDelete = True"
| "watched w e = False"

definition obs :: "watch \<Rightarrow> event list \<Rightarrow> event list" where
  "obs w tr = filter (watched w) tr"

text \<open>The connection a channel of the source is bound to.\<close>

definition bound_conn :: "channel \<Rightarrow> migrationSourceWs \<Rightarrow> conn option" where
  "bound_conn ch s =
     (case ch of control \<Rightarrow> controlConn s | criu \<Rightarrow> criuConn s | fs \<Rightarrow> fsConn s)"

subsection \<open>Concrete containers, headers and runs\<close>

definition ex_container :: container where
  "ex_container =
     \<lparr> Name = ''c1'', LocalConfig = [(''limits.cpu'', ''2'')],
       LocalDevices = [(''eth0'', [(''type'', ''nic'')]), (''root'', [(''path'', ''/'')])],
       Profiles = [''default''], IsEphemeral = False, Architecture = 2, IsStateful = False \<rparr>"

definition ex_entry_big :: IdmapEntry where
  "ex_entry_big =
     \<lparr> Isuid = True, Isgid = False, Hostid = 4295067296, Nsid = 0, Maprange = 65536 \<rparr>"

definition ex_snapshot :: container where
  "ex_snapshot = ex_container\<lparr> Name := ''c1/snap0'' \<rparr>"

definition ex_header :: MigrationHeader where
  "ex_header =
     \<lparr> pb_Fs = ZFS, pb_Criu = None, pb_Idmap = [], pb_SnapshotNames = [], pb_Snapshots = [] \<rparr>"

text \<open>A header of the old protocol: two names, no descriptors.\<close>

definition ex_header_legacy :: MigrationHeader where
  "ex_header_legacy = ex_header\<lparr> pb_SnapshotNames := [''snap0'', ''snap1''] \<rparr>"

text \<open>
  A source whose channels are attached and whose \<^verbatim>\<open>allConnected\<close> holds its value, for a
  stopped container and for a running one; in \<open>ex_src_env\<close> every call succeeds and the
  sink echoes the source's type.
\<close>

definition ex_source :: migrationSourceWs where
  "ex_source =
     \<lparr> live = False, controlSecret = ''c0ffee'', controlConn = Some 1, controlLock = False,
       criuSecret = [], criuConn = None, fsSecret = ''f00d'', fsConn = Some 2, trace = [],
       allConnected = 1 \<rparr>"

definition ex_source_live :: migrationSourceWs where
  "ex_source_live = ex_source\<lparr> live := True, criuSecret := ''beef'', criuConn := Some 3 \<rparr>"

definition ex_src_env :: source_env where
  "ex_src_env =
     \<lparr> src_StorageStart = None, src_IdmapSet = Inr None, src_MigrationType = ZFS,
       src_MigrationSource = None, src_Snapshots = [ex_snapshot], src_ProtoSend = None,
       src_ProtoRecv_header = Inr ex_header, src_SendWhileRunning = (\<lambda>_. None),
       src_TempDir = Inr ''/tmp/lxd_checkpoint_1'',
       src_RuntimeLiblxcVersionAtLeast_2_0_4 = True,
       src_RandomCryptoString = Inr ''5ec4e7'', src_operationCreate = None,
       src_writeActionScript = None, src_actionScriptOp_Run = None, src_Migrate = None,
       src_dumpDone_first = True, src_RsyncSend = None, src_SendAfterCheckpoint = (\<lambda>_. None),
       src_ProtoRecv_control = Inr \<lparr> pb_Success = True, pb_Message = None \<rparr> \<rparr>"

text \<open>
  A sink before it dials; in \<open>ex_snk_env\<close> every call succeeds, the source sends no
  control message and the sink's storage is of another type than the source's.
\<close>

definition ex_sink :: migrationFields where
  "ex_sink =
     \<lparr> live = False, controlSecret = ''c0ffee'', controlConn = None, controlLock = False,
       criuSecret = [], criuConn = None, fsSecret = ''f00d'', fsConn = None, trace = [] \<rparr>"

definition ex_snk_env :: sink_env where
  "ex_snk_env =
     \<lparr> snk_Dial_control = Inr 1, snk_Dial_fs = Inr 2, snk_Dial_criu = Inr 3,
       snk_ProtoRecv_header = Inr ex_header, snk_MigrationType = BTRFS, snk_ProtoSend = None,
       snk_container = ex_container, snk_Extend = (\<lambda>xs x. xs @ [x]),
       snk_MigrationSink = (\<lambda>_ _ _ _ _. None), snk_ShiftIfNecessary = None,
       snk_TempDir = Inr ''/tmp/lxd_restore_1'', snk_RsyncRecv = None, snk_Migrate = None,
       snk_source = NoMessage, snk_source_first = False, snk_TemplateApply = None \<rparr>"

text \<open>
  A source for a running container before any channel is attached, and the same source
  after a first \<^verbatim>\<open>Connect\<close> with the control secret.
\<close>

definition ex_pending :: migrationSourceWs where
  "ex_pending =
     ex_source_live\<lparr> controlConn := None, criuConn := None, fsConn := None, allConnected := 0 \<rparr>"

definition ex_after_first :: migrationSourceWs where
  "ex_after_first = snd (Connect ''c0ffee'' (Inr 7) ex_pending)"

text \<open>Runs of the source in which one call fails: the read of the echo header, the driver.\<close>

definition ex_src_env_recv_fails :: source_env where
  "ex_src_env_recv_fails =
     ex_src_env\<lparr> src_ProtoRecv_header := Inl (Errorf ''websocket: close 1006'') \<rparr>"

definition ex_src_env_no_driver :: source_env where
  "ex_src_env_no_driver = ex_src_env\<lparr> src_MigrationSource := Some (Errorf ''not implemented'') \<rparr>"

text \<open>The opening header of \<open>ex_src_env\<close> for a running container.\<close>

definition ex_opening_header :: MigrationHeader where
  "ex_opening_header =
     \<lparr> pb_Fs = ZFS, pb_Criu = Some CRIU_RSYNC, pb_Idmap = [], pb_SnapshotNames = [''snap0''],
       pb_Snapshots =
         [\<lparr> msg_Name = ''snap0'',
            msg_LocalConfig = [\<lparr> pb_Key = ''limits.cpu'', pb_Value = ''2'' \<rparr>],
            msg_Profiles = [''default''], msg_Ephemeral = False,
            msg_LocalDevices =
              [\<lparr> msg_Device_Name = ''root'',
                 msg_Device_Config = [\<lparr> pb_Key = ''type'', pb_Value = ''nic'' \<rparr>] \<rparr>,
               \<lparr> msg_Device_Name = ''root'',
                 msg_Device_Config = [\<lparr> pb_Key = ''path'', pb_Value = ''/'' \<rparr>] \<rparr>],
            msg_Architecture = 2, msg_Stateful = False \<rparr>] \<rparr>"

text \<open>A run of the sink in which the storage sink fails, so that the restore reports an error.\<close>

definition ex_snk_env_no_space :: sink_env where
  "ex_snk_env_no_space =
     ex_snk_env\<lparr> snk_MigrationSink := (\<lambda>_ _ _ _ _. Some (Errorf ''no space left on device'')) \<rparr>"

section \<open>Properties\<close>

subsection \<open>Snapshot names\<close>

lemma Index_single_None: "(Index s [c] = None) = (c \<notin> set s)"
  by (induction s) (auto split: option.splits)

lemma ExtractSnapshotName_None_iff:
  "(ExtractSnapshotName name = None) = (CHR ''/'' \<notin> set name)"
proof (cases "Index name ''/''")
  case None
  then show ?thesis
    using Index_single_None [of name "CHR ''/''"]
    by (simp add: ExtractSnapshotName_def SnapshotDelimiter_def numeral_2_eq_2)
next
  case (Some m)
  then show ?thesis
    using Index_single_None [of name "CHR ''/''"]
    by (simp add: ExtractSnapshotName_def SnapshotDelimiter_def numeral_2_eq_2)
qed

lemma snapshots_loop_Some_iff:
  "(snapshots_loop snaps ss ns h \<noteq> None) = (\<forall>snap\<in>set snaps. CHR ''/'' \<in> set (Name snap))"
proof (induction snaps arbitrary: ss ns h)
  case Nil
  show ?case by simp
next
  case (Cons snap snaps)
  show ?case
  proof (cases "ExtractSnapshotName (Name snap)")
    case None
    then show ?thesis
      using ExtractSnapshotName_None_iff [of "Name snap"]
      by (simp split: prod.splits)
  next
    case (Some n)
    then show ?thesis
      using ExtractSnapshotName_None_iff [of "Name snap"] Cons.IH
      by (simp split: prod.splits)
  qed
qed

subsection \<open>IDMap entries through the 32-bit wire fields\<close>

lemma sint_narrow_widen:
  "sint (scast (ucast (x :: 64 word) :: 32 word) :: 64 word) = signed_take_bit 31 (sint x)"
proof -
  have "sint (scast (ucast x :: 32 word) :: 64 word) = sint (ucast x :: 32 word)"
    by (rule sint_up_scast) (simp add: is_up)
  also have "\<dots> = signed_take_bit 31 (sint x)"
    by transfer (simp add: signed_take_bit_eq_iff_take_bit_eq take_bit_signed_take_bit)
  finally show ?thesis .
qed

lemma narrow_widen_id_iff:
  "(scast (ucast (x :: 64 word) :: 32 word) = x) = fits_int32 x"
proof -
  have "(scast (ucast x :: 32 word) = x) = (sint (scast (ucast x :: 32 word) :: 64 word) = sint x)"
    by (simp add: word_eq_iff_signed)
  also have "\<dots> = (signed_take_bit 31 (sint x) = sint x)"
    by (simp only: sint_narrow_widen)
  also have "\<dots> = fits_int32 x"
    by (simp add: signed_take_bit_int_eq_self_iff fits_int32_def)
  finally show ?thesis .
qed

lemma sint_narrow_widen_mod:
  "sint (scast (ucast (x :: 64 word) :: 32 word) :: 64 word) = (sint x + 2 ^ 31) mod 2 ^ 32 - 2 ^ 31"
  by (simp add: sint_narrow_widen signed_take_bit_eq_take_bit_shift take_bit_eq_mod)



text \<open>
  C9. \<^verbatim>\<open>ExtractSnapshotName\<close> panics exactly on the names without the delimiter
  \<open>/\<close>; the loop of the source that builds the snapshot lists of the header gets through
  exactly when every snapshot of the driver has a name with the delimiter; and when the
  driver was obtained and one of its snapshots has a name without it, the header
  construction panics before anything is sent.
\<close>

theorem ExtractSnapshotName_partial:
  "(ExtractSnapshotName name = None) = (CHR ''/'' \<notin> set name)
   \<and> (snapshots_loop snaps ss ns h \<noteq> None) = (\<forall>snap\<in>set snaps. CHR ''/'' \<in> set (Name snap))
   \<and> (src_IdmapSet env = Inr m \<and> src_MigrationSource env = None
        \<and> (\<exists>snap\<in>set (src_Snapshots env). CHR ''/'' \<notin> set (Name snap))
      \<longrightarrow> source_Do_header env criuType s = (Panic, s))"
proof -
  have "source_Do_header env criuType s = (Panic, s)"
    if "src_IdmapSet env = Inr m" "src_MigrationSource env = None"
      "\<exists>snap\<in>set (src_Snapshots env). CHR ''/'' \<notin> set (Name snap)"
  proof -
    have "snapshots_loop (src_Snapshots env) [] [] [] = None"
      using that(3) snapshots_loop_Some_iff [of "src_Snapshots env" "[]" "[]" "[]"] by blast
    then show ?thesis
      using that(1,2) by (simp add: source_Do_header_def build_header_def)
  qed
  then show ?thesis
    using ExtractSnapshotName_None_iff [of name] snapshots_loop_Some_iff [of snaps ss ns h]
    by blast
qed

text \<open>
  \<open>c1\<close> has no delimiter and \<open>c1/snap0\<close> has one; a driver that lists the container
  itself among its snapshots makes the source panic.
\<close>

theorem ExtractSnapshotName_partial_witness:
  "ExtractSnapshotName ''c1'' = None
   \<and> ExtractSnapshotName ''c1/snap0'' = Some ''snap0''
   \<and> snapshots_loop [ex_snapshot, ex_container] [] [] [] = None
   \<and> snapshots_loop [ex_snapshot] [] [] [] \<noteq> None
   \<and> source_Do_header (ex_src_env\<lparr> src_Snapshots := [ex_snapshot, ex_container] \<rparr>) None ex_source
       = (Panic, ex_source)"
proof -
  have a: "ExtractSnapshotName ''c1/snap0'' = Some ''snap0''"
    by (simp add: ExtractSnapshotName_def SnapshotDelimiter_def numeral_2_eq_2)
  show ?thesis
    using a
      ExtractSnapshotName_partial [of "''c1''" "[ex_snapshot, ex_container]" "[]" "[]" "[]"
        "ex_src_env\<lparr> src_Snapshots := [ex_snapshot, ex_container] \<rparr>" None None ex_source]
      ExtractSnapshotName_partial [of "''c1''" "[ex_snapshot]" "[]" "[]" "[]"
        "ex_src_env" None None ex_source]
    by (simp add: ex_snapshot_def ex_container_def ex_src_env_def)
qed

subsection \<open>Connect\<close>

text \<open>
  C3 as stated fails: a second \<^verbatim>\<open>Connect\<close> with the control secret returns nil, and
  the control channel is bound to the second connection.
\<close>

theorem Connect_same_secret_twice_counterexample:
  "controlConn ex_after_first = Some 7
   \<and> fst (Connect ''c0ffee'' (Inr 8) ex_after_first) = Ret None
   \<and> controlConn (snd (Connect ''c0ffee'' (Inr 8) ex_after_first)) = Some 8"
  by (simp add: ex_after_first_def Connect_def match_secret_def attach_def emit_def ex_pending_def
      ex_source_live_def ex_source_def)

text \<open>
  C3, as the code has it. \<^verbatim>\<open>Connect\<close> keeps no record of the secrets already used: every
  call with a non-empty secret that matches a channel and whose upgrade succeeds binds
  that channel to the new connection, whether or not it was bound before, and does not
  return the Permission error.
\<close>

theorem Connect_rebinds:
  "secret \<noteq> [] \<and> match_secret s secret = Some ch \<longrightarrow>
     fst (Connect secret (Inr k) s) \<noteq> Ret (Some ErrPermission)
     \<and> bound_conn ch (snd (Connect secret (Inr k) s)) = Some k"
  by (cases ch) (auto simp: Connect_def attach_def emit_def bound_conn_def Let_def)

theorem Connect_rebinds_witness:
  "match_secret (ex_pending\<lparr> controlConn := Some 7 \<rparr>) ''c0ffee'' = Some control
   \<and> bound_conn control (ex_pending\<lparr> controlConn := Some 7 \<rparr>) = Some 7
   \<and> fst (Connect ''c0ffee'' (Inr 8) (ex_pending\<lparr> controlConn := Some 7 \<rparr>)) \<noteq> Ret (Some ErrPermission)
   \<and> bound_conn control (snd (Connect ''c0ffee'' (Inr 8) (ex_pending\<lparr> controlConn := Some 7 \<rparr>)))
       = Some 8"
proof -
  have m: "match_secret (ex_pending\<lparr> controlConn := Some 7 \<rparr>) ''c0ffee'' = Some control"
    by (simp add: match_secret_def ex_pending_def ex_source_live_def ex_source_def)
  have b: "bound_conn control (ex_pending\<lparr> controlConn := Some 7 \<rparr>) = Some 7"
    by (simp add: bound_conn_def)
  show ?thesis
    using m b Connect_rebinds [of "''c0ffee''" "ex_pending\<lparr> controlConn := Some 7 \<rparr>" control 8]
    by simp
qed

text \<open>
  C4 as stated fails for the empty secret: it is none of the three secrets of a live
  operation, and \<^verbatim>\<open>Connect\<close> answers it with the error \<open>missing secret\<close>, not with
  Permission.
\<close>

theorem Connect_empty_secret_counterexample:
  "[] \<noteq> controlSecret ex_pending \<and> [] \<noteq> fsSecret ex_pending \<and> [] \<noteq> criuSecret ex_pending
   \<and> fst (Connect [] (Inr 7) ex_pending) \<noteq> Ret (Some ErrPermission)"
  by (simp add: Connect_def ex_pending_def ex_source_live_def ex_source_def)

text \<open>
  C4, as the code has it. \<^verbatim>\<open>Connect\<close> with a non-empty secret that is none of the
  control, fs and criu secrets returns the Permission error and leaves the source as it
  was: no upgrade is made and no channel is attached. With the empty secret it returns
  the error \<open>missing secret\<close> and leaves the source as it was.
\<close>

theorem Connect_unknown_secret:
  "(secret \<noteq> [] \<and> secret \<noteq> controlSecret s \<and> secret \<noteq> fsSecret s \<and> secret \<noteq> criuSecret s
      \<longrightarrow> Connect secret upgrade s = (Ret (Some ErrPermission), s))
   \<and> Connect [] upgrade s = (Ret (Some (Errorf ''missing secret'')), s)"
  by (simp add: Connect_def match_secret_def)

theorem Connect_unknown_secret_witness:
  "Connect ''bad'' (Inr 7) ex_pending = (Ret (Some ErrPermission), ex_pending)"
  using Connect_unknown_secret [of "''bad''" ex_pending "Inr 7"]
  by (simp add: ex_pending_def ex_source_live_def ex_source_def)

subsection \<open>What the primitives add to a trace\<close>

lemma watched_other [simp]:
  "\<not> watched w EvUpgrade" "\<not> watched w EvProtoRecvControl"
  "\<not> watched w (EvProtoSendControl k err)" "\<not> watched w (EvWriteCloseMessage c)"
  "\<not> watched w (EvClose c)" "\<not> watched w EvStorageStart" "\<not> watched w EvStorageStop"
  "\<not> watched w (EvSendWhileRunning d k)" "\<not> watched w (EvSendAfterCheckpoint d k)"
  "\<not> watched w EvTempDir" "\<not> watched w (EvRemoveAll p)" "\<not> watched w EvOperationCreate"
  "\<not> watched w EvWriteActionScript" "\<not> watched w EvOperationRun"
  "\<not> watched w (EvMigrateDump b)" "\<not> watched w (EvRsyncSend k)"
  "\<not> watched w (EvRestoreSuccess b)" "\<not> watched w (EvDial x)"
  "\<not> watched w EvTemplateApply"
  by (cases w; simp)+

lemma watched_Cleanup [simp]: "watched w (EvCleanup d) = (w = Cleanups)"
  by (cases w) simp_all

lemma watched_Delete [simp]: "watched w EvDelete = (w = Deletes)"
  by (cases w) simp_all

lemma watched_header [simp]:
  "watched w (EvProtoSend k m) = (w = HeaderMessages)"
  "watched w EvProtoRecvHeader = (w = HeaderMessages)"
  by (cases w; simp)+

lemma obs_emit [simp]:
  "obs w (trace (emit e c)) = obs w (trace c) @ (if watched w e then [e] else [])"
  by (simp add: obs_def emit_def)

lemma trace_Unlock [simp]: "trace (Unlock c) = trace c"
  by (simp add: Unlock_def)

lemma snd_andThen:
  "snd (andThen m f) =
     (case fst m of Ret a \<Rightarrow> snd (f a (snd m)) | Blocked \<Rightarrow> snd m | Panic \<Rightarrow> snd m)"
  by (cases m) (simp add: andThen_def split: res.splits)

lemma obs_disconnect [simp]: "obs w (trace (snd (disconnect c))) = obs w (trace c)"
  by (simp add: disconnect_def Lock_def andThen_def Let_def obs_def emit_def Unlock_def
      split: option.splits)

lemma obs_sendControl [simp]: "obs w (trace (snd (sendControl err c))) = obs w (trace c)"
  by (simp add: sendControl_def disconnect_def Lock_def andThen_def Let_def obs_def emit_def
      Unlock_def split: option.splits)

text \<open>
  \<^verbatim>\<open>sendControl\<close> with an error never returns: it sends the control message and then
  blocks in \<^verbatim>\<open>disconnect\<close> on the lock it holds (or at once, when the lock was taken).
\<close>

lemma sendControl_error_blocks:
  "sendControl (Some e) c =
     (Blocked, if controlLock c then c
               else emit (EvProtoSendControl (controlConn c) (Some e)) (c\<lparr> controlLock := True \<rparr>))"
  by (simp add: sendControl_def disconnect_def Lock_def andThen_def emit_def)

lemma send_unlocked:
  "\<not> controlLock c \<Longrightarrow> send m r c = (Ret r, emit (EvProtoSend (controlConn c) m) c)"
  by (cases c) (simp add: send_def Lock_def andThen_def emit_def Unlock_def)

lemma controlLock_emit [simp]: "controlLock (emit e c) = controlLock c"
  by (simp add: emit_def)

lemma controlConn_emit [simp]: "controlConn (emit e c) = controlConn c"
  by (simp add: emit_def)

lemma fsConn_emit [simp]: "fsConn (emit e c) = fsConn c"
  by (simp add: emit_def)

lemma live_emit [simp]: "live (emit e c) = live c"
  by (simp add: emit_def)

lemma trace_emit: "trace (emit e c) = trace c @ [e]"
  by (simp add: emit_def)

subsection \<open>The source after the header exchange\<close>

lemma obs_abort [simp]:
  "obs w (trace (snd (abort d err s)))
     = obs w (trace s) @ (if w = Cleanups then [EvCleanup d] else [])"
proof -
  have "obs w (trace (snd (abort d err s)))
        = obs w (trace (snd (sendControl err (emit (EvCleanup d) s))))"
    by (simp add: abort_def snd_andThen split: res.splits)
  then show ?thesis by simp
qed

lemma obs_finish [simp]:
  "obs w (trace (snd (source_Do_finish env d g s)))
     = obs w (trace s) @ (if w = Cleanups then [EvCleanup d] else [])"
proof (cases "src_ProtoRecv_control env")
  case (Inl err)
  have "obs w (trace (snd (source_Do_finish env d g s)))
        = obs w (trace (snd (disconnect (emit EvProtoRecvControl (emit (EvCleanup d) s)))))"
    using Inl by (simp add: source_Do_finish_def snd_andThen Let_def split: res.splits)
  then show ?thesis by simp
next
  case (Inr msg)
  then show ?thesis
    by (simp add: source_Do_finish_def andThen_def Let_def split: option.splits)
qed

lemma obs_after_dump [simp]:
  "obs w (trace (snd (source_Do_after_dump env d g s)))
     = obs w (trace s) @ (if w = Cleanups then [EvCleanup d] else [])"
  by (simp add: source_Do_after_dump_def Let_def split: option.splits)

lemma obs_dump_action_script [simp]:
  "obs w (trace (snd (source_Do_dump_action_script env d dir s)))
     = obs w (trace s) @ (if w = Cleanups then [EvCleanup d] else [])"
  by (simp add: source_Do_dump_action_script_def Let_def split: option.splits sum.splits)

lemma obs_dump_legacy [simp]:
  "obs w (trace (snd (source_Do_dump_legacy env d dir s)))
     = obs w (trace s) @ (if w = Cleanups then [EvCleanup d] else [])"
proof (cases "src_Migrate env")
  case None
  show ?thesis
  proof (cases "source_Do_after_dump env d False (emit (EvMigrateDump False) s)")
    case (Pair r s2)
    then have "obs w (trace s2) = obs w (trace s) @ (if w = Cleanups then [EvCleanup d] else [])"
      using obs_after_dump [of w env d False "emit (EvMigrateDump False) s"] by simp
    then show ?thesis
      using None Pair by (cases r) (simp_all add: source_Do_dump_legacy_def Let_def)
  qed
next
  case (Some err)
  show ?thesis
  proof (cases "abort d (Some err) (emit (EvMigrateDump False) s)")
    case (Pair r s2)
    then have "obs w (trace s2) = obs w (trace s) @ (if w = Cleanups then [EvCleanup d] else [])"
      using obs_abort [of w d "Some err" "emit (EvMigrateDump False) s"] by simp
    then show ?thesis
      using Some Pair by (cases r) (simp_all add: source_Do_dump_legacy_def Let_def)
  qed
qed

lemma obs_live [simp]:
  "obs w (trace (snd (source_Do_live env h d s)))
     = obs w (trace s) @ (if w = Cleanups then [EvCleanup d] else [])"
  by (simp add: source_Do_live_def Let_def split: option.splits sum.splits)

lemma obs_transfer:
  "obs w (trace (snd (source_Do_transfer env h d s)))
     = obs w (trace s) @ (if w = Cleanups then [EvCleanup d] else [])"
  by (simp add: source_Do_transfer_def Let_def split: option.splits)


subsection \<open>The source up to the header exchange\<close>

lemma build_header_Some:
  assumes "src_MigrationSource env = None"
    and "\<forall>snap\<in>set (src_Snapshots env). CHR ''/'' \<in> set (Name snap)"
  shows "\<exists>hdr. build_header env ct m = Some hdr"
proof -
  have "snapshots_loop (src_Snapshots env) [] [] [] \<noteq> None"
    using assms(2) snapshots_loop_Some_iff [of "src_Snapshots env" "[]" "[]" "[]"] by blast
  then show ?thesis
    using assms(1) by (auto simp: build_header_def split: prod.splits)
qed

lemma build_header_no_driver:
  "src_MigrationSource env = Some fe \<Longrightarrow>
   build_header env ct m = Some (opening_header (src_MigrationType env) ct (source_idmaps m) [] [])"
  by (simp add: build_header_def)


lemma obs_header_exchanged:
  assumes "\<not> controlLock s" "src_IdmapSet env = Inr m" "src_MigrationSource env = None"
    "\<forall>snap\<in>set (src_Snapshots env). CHR ''/'' \<in> set (Name snap)"
    "src_ProtoSend env = None" "src_ProtoRecv_header env = Inr echo"
  shows "obs Cleanups (trace (snd (source_Do_header env ct s)))
         = obs Cleanups (trace s) @ [EvCleanup (negotiated_driver env echo)]"
proof -
  obtain hdr where hdr: "build_header env ct m = Some hdr"
    using build_header_Some [OF assms(3,4)] by blast
  obtain t h' d where neg: "source_negotiate (src_MigrationType env) echo StorageMigrationSource = (t, h', d)"
    by (cases "source_negotiate (src_MigrationType env) echo StorageMigrationSource") auto
  have "source_Do_header env ct s
        = source_Do_transfer env h' d (emit EvProtoRecvHeader (emit (EvProtoSend (controlConn s) hdr) s))"
    using assms hdr neg
    by (simp add: source_Do_header_def send_unlocked andThen_def Let_def)
  then show ?thesis
    using neg by (simp add: obs_transfer negotiated_driver_def)
qed

lemma obs_header_not_exchanged:
  assumes "src_IdmapSet env = Inr m" "src_MigrationSource env = None"
    "src_ProtoSend env \<noteq> None \<or> (\<exists>e. src_ProtoRecv_header env = Inl e)"
  shows "obs Cleanups (trace (snd (source_Do_header env ct s))) = obs Cleanups (trace s)"
proof (cases "build_header env ct m")
  case None
  then show ?thesis using assms by (simp add: source_Do_header_def)
next
  case (Some hdr)
  show ?thesis
  proof (cases "controlLock s")
    case True
    then show ?thesis
      using assms Some by (simp add: source_Do_header_def send_def Lock_def andThen_def)
  next
    case False
    then show ?thesis
      using assms Some
      by (auto simp: source_Do_header_def send_unlocked andThen_def Let_def sendControl_error_blocks
          split: option.splits)
  qed
qed

lemma snd_source_Do_trace:
  assumes "allConnected s \<noteq> 0" "live s \<or> src_StorageStart env = None"
  shows "obs w (trace (snd (source_Do env s)))
         = obs w (trace (snd (source_Do_header env (if live s then Some CRIU_RSYNC else None)
             (if live s then s\<lparr> allConnected := allConnected s - 1 \<rparr>
              else emit EvStorageStart (s\<lparr> allConnected := allConnected s - 1 \<rparr>)))))"
proof (cases "live s")
  case True
  then show ?thesis using assms by (simp add: source_Do_def Let_def)
next
  case False
  then have st: "src_StorageStart env = None" using assms by simp
  obtain r s2 where run: "source_Do_header env None (emit EvStorageStart (s\<lparr> allConnected := allConnected s - 1 \<rparr>)) = (r, s2)"
    by (cases "source_Do_header env None (emit EvStorageStart (s\<lparr> allConnected := allConnected s - 1 \<rparr>))") auto
  show ?thesis
    using False st run assms(1) by (cases r) (simp_all add: source_Do_def Let_def)
qed

text \<open>
  C2, as the code has it. In every run of the source's \<^verbatim>\<open>Do\<close> in which the opening
  header was sent and the echo header was received, \<^verbatim>\<open>Cleanup\<close> is called exactly once,
  on the driver in use after the negotiation, whatever happens afterwards. In a run in
  which the driver was obtained but sending the opening header or reading the echo fails,
  \<^verbatim>\<open>Cleanup\<close> is not called.
\<close>

theorem cleanup_once_after_header_exchange:
  "(allConnected s \<noteq> 0 \<and> \<not> controlLock s \<and> (live s \<or> src_StorageStart env = None)
      \<and> src_IdmapSet env = Inr m \<and> src_MigrationSource env = None
      \<and> (\<forall>snap\<in>set (src_Snapshots env). CHR ''/'' \<in> set (Name snap))
      \<and> src_ProtoSend env = None \<and> src_ProtoRecv_header env = Inr echo
    \<longrightarrow> obs Cleanups (trace (snd (source_Do env s)))
          = obs Cleanups (trace s) @ [EvCleanup (negotiated_driver env echo)])
   \<and> (allConnected s \<noteq> 0 \<and> (live s \<or> src_StorageStart env = None)
      \<and> src_IdmapSet env = Inr m \<and> src_MigrationSource env = None
      \<and> (src_ProtoSend env \<noteq> None \<or> (\<exists>e. src_ProtoRecv_header env = Inl e))
    \<longrightarrow> obs Cleanups (trace (snd (source_Do env s))) = obs Cleanups (trace s))"
proof (intro conjI impI)
  assume a: "allConnected s \<noteq> 0 \<and> \<not> controlLock s \<and> (live s \<or> src_StorageStart env = None)
      \<and> src_IdmapSet env = Inr m \<and> src_MigrationSource env = None
      \<and> (\<forall>snap\<in>set (src_Snapshots env). CHR ''/'' \<in> set (Name snap))
      \<and> src_ProtoSend env = None \<and> src_ProtoRecv_header env = Inr echo"
  show "obs Cleanups (trace (snd (source_Do env s)))
          = obs Cleanups (trace s) @ [EvCleanup (negotiated_driver env echo)]"
  proof (cases "live s")
    case True
    have "\<not> controlLock (s\<lparr> allConnected := allConnected s - 1 \<rparr>)" using a by simp
    from obs_header_exchanged [OF this, of env m echo "Some CRIU_RSYNC"] a True
    show ?thesis by (simp add: snd_source_Do_trace)
  next
    case False
    have "\<not> controlLock (emit EvStorageStart (s\<lparr> allConnected := allConnected s - 1 \<rparr>))" using a by simp
    from obs_header_exchanged [OF this, of env m echo None] a False
    show ?thesis by (simp add: snd_source_Do_trace)
  qed
next
  assume a: "allConnected s \<noteq> 0 \<and> (live s \<or> src_StorageStart env = None)
      \<and> src_IdmapSet env = Inr m \<and> src_MigrationSource env = None
      \<and> (src_ProtoSend env \<noteq> None \<or> (\<exists>e. src_ProtoRecv_header env = Inl e))"
  then have b: "src_IdmapSet env = Inr m" "src_MigrationSource env = None"
      "src_ProtoSend env \<noteq> None \<or> (\<exists>e. src_ProtoRecv_header env = Inl e)" by auto
  show "obs Cleanups (trace (snd (source_Do env s))) = obs Cleanups (trace s)"
    using a obs_header_not_exchanged [OF b] by (simp add: snd_source_Do_trace)
qed


lemma source_Do_live_start:
  "live s \<Longrightarrow> allConnected s \<noteq> 0 \<Longrightarrow>
   source_Do env s = source_Do_header env (Some CRIU_RSYNC) (s\<lparr> allConnected := allConnected s - 1 \<rparr>)"
  by (simp add: source_Do_def Let_def)

text \<open>
  C6 on the code. When \<^verbatim>\<open>MigrationSource\<close> fails and the header can be sent, the source
  sends the opening header with its own type and empty snapshot lists and right after it
  the control message with the driver's error; but \<^verbatim>\<open>sendControl\<close> then calls
  \<^verbatim>\<open>disconnect\<close> while it holds \<^verbatim>\<open>controlLock\<close>, and \<^verbatim>\<open>Do\<close> does not return the
  error: it never returns.
\<close>

theorem driver_failure_header_then_blocked:
  "allConnected s \<noteq> 0 \<and> \<not> controlLock s \<and> (live s \<or> src_StorageStart env = None)
     \<and> src_IdmapSet env = Inr m \<and> src_MigrationSource env = Some fsErr \<and> src_ProtoSend env = None
   \<longrightarrow> fst (source_Do env s) = Blocked
       \<and> trace (snd (source_Do env s))
           = trace s @ (if live s then [] else [EvStorageStart])
             @ [EvProtoSend (controlConn s)
                  (opening_header (src_MigrationType env) (if live s then Some CRIU_RSYNC else None)
                     (source_idmaps m) [] []),
                EvProtoSendControl (controlConn s) (Some fsErr)]"
proof (intro impI)
  assume a: "allConnected s \<noteq> 0 \<and> \<not> controlLock s \<and> (live s \<or> src_StorageStart env = None)
     \<and> src_IdmapSet env = Inr m \<and> src_MigrationSource env = Some fsErr \<and> src_ProtoSend env = None"
  have hdr: "\<And>ct s'. \<not> controlLock s' \<Longrightarrow> source_Do_header env ct s'
      = (Blocked, emit (EvProtoSendControl (controlConn s') (Some fsErr))
           ((emit (EvProtoSend (controlConn s')
               (opening_header (src_MigrationType env) ct (source_idmaps m) [] [])) s')
             \<lparr> controlLock := True \<rparr>))"
    using a
    by (simp add: source_Do_header_def build_header_no_driver send_unlocked andThen_def
        sendControl_error_blocks)
  show "fst (source_Do env s) = Blocked
       \<and> trace (snd (source_Do env s))
           = trace s @ (if live s then [] else [EvStorageStart])
             @ [EvProtoSend (controlConn s)
                  (opening_header (src_MigrationType env) (if live s then Some CRIU_RSYNC else None)
                     (source_idmaps m) [] []),
                EvProtoSendControl (controlConn s) (Some fsErr)]"
  proof (cases "live s")
    case True
    then show ?thesis
      using a hdr [of "s\<lparr> allConnected := allConnected s - 1 \<rparr>" "Some CRIU_RSYNC"]
      by (simp add: source_Do_def Let_def emit_def)
  next
    case False
    then show ?thesis
      using a hdr [of "emit EvStorageStart (s\<lparr> allConnected := allConnected s - 1 \<rparr>)" None]
      by (simp add: source_Do_def Let_def emit_def)
  qed
qed

text \<open>
  C7 on the code. In a live migration whose echoed header has no checkpoint type, or one
  other than \<^verbatim>\<open>CRIU_RSYNC\<close>, the source ends after \<^verbatim>\<open>SendWhileRunning\<close> with
  \<^verbatim>\<open>Cleanup\<close> and a control message carrying an error, and no checkpoint directory is
  made and no dump is started; but \<^verbatim>\<open>Do\<close> does not return the error: \<^verbatim>\<open>sendControl\<close>
  blocks on \<^verbatim>\<open>controlLock\<close>.
\<close>

theorem live_bad_criu_type_aborts_then_blocked:
  "live s \<and> allConnected s \<noteq> 0 \<and> \<not> controlLock s
     \<and> src_IdmapSet env = Inr m \<and> src_MigrationSource env = None
     \<and> build_header env (Some CRIU_RSYNC) m = Some hdr
     \<and> src_ProtoSend env = None \<and> src_ProtoRecv_header env = Inr echo
     \<and> pb_Criu echo \<noteq> Some CRIU_RSYNC
   \<longrightarrow> fst (source_Do env s) = Blocked
       \<and> trace (snd (source_Do env s))
           = trace s @ [EvProtoSend (controlConn s) hdr, EvProtoRecvHeader,
                        EvSendWhileRunning (negotiated_driver env echo) (fsConn s),
                        EvCleanup (negotiated_driver env echo),
                        EvProtoSendControl (controlConn s)
                          (Some (case src_SendWhileRunning env (negotiated_driver env echo) of
                                   Some e \<Rightarrow> e
                                 | None \<Rightarrow>
                                     if pb_Criu echo = None
                                     then Errorf ''Got no CRIU socket type for live migration''
                                     else Errorf ''Formats other than criu rsync not understood''))]"
proof (intro impI)
  assume a: "live s \<and> allConnected s \<noteq> 0 \<and> \<not> controlLock s
     \<and> src_IdmapSet env = Inr m \<and> src_MigrationSource env = None
     \<and> build_header env (Some CRIU_RSYNC) m = Some hdr
     \<and> src_ProtoSend env = None \<and> src_ProtoRecv_header env = Inr echo
     \<and> pb_Criu echo \<noteq> Some CRIU_RSYNC"
  let ?s0 = "s\<lparr> allConnected := allConnected s - 1 \<rparr>"
  let ?s2 = "emit EvProtoRecvHeader (emit (EvProtoSend (controlConn s) hdr) ?s0)"
  let ?d = "negotiated_driver env echo"
  let ?err = "case src_SendWhileRunning env ?d of
                Some e \<Rightarrow> e
              | None \<Rightarrow>
                  if pb_Criu echo = None
                  then Errorf ''Got no CRIU socket type for live migration''
                  else Errorf ''Formats other than criu rsync not understood''"
  obtain t h' where
    neg: "source_negotiate (src_MigrationType env) echo StorageMigrationSource = (t, h', ?d)"
    by (cases "source_negotiate (src_MigrationType env) echo StorageMigrationSource")
       (auto simp: negotiated_driver_def)
  have criu: "pb_Criu h' = pb_Criu echo"
    using neg by (auto simp: source_negotiate_def split: if_splits)
  have run: "source_Do env s = source_Do_transfer env h' ?d ?s2"
    using a neg
    by (simp add: source_Do_live_start source_Do_header_def send_unlocked andThen_def Let_def)
  have ab: "abort ?d (Some ?err) (emit (EvSendWhileRunning ?d (fsConn s)) ?s2)
      = (Blocked, emit (EvProtoSendControl (controlConn s) (Some ?err))
           ((emit (EvCleanup ?d) (emit (EvSendWhileRunning ?d (fsConn s)) ?s2))
              \<lparr> controlLock := True \<rparr>))"
    using a by (simp add: abort_def sendControl_error_blocks andThen_def)
  have "source_Do_transfer env h' ?d ?s2
      = abort ?d (Some ?err) (emit (EvSendWhileRunning ?d (fsConn s)) ?s2)"
    using a criu
    by (cases "src_SendWhileRunning env ?d"; cases "pb_Criu echo")
       (auto simp: source_Do_transfer_def source_Do_live_def Let_def)
  then have "source_Do env s
      = abort ?d (Some ?err) (emit (EvSendWhileRunning ?d (fsConn s)) ?s2)"
    using run by simp
  then show "fst (source_Do env s) = Blocked
       \<and> trace (snd (source_Do env s))
           = trace s @ [EvProtoSend (controlConn s) hdr, EvProtoRecvHeader,
                        EvSendWhileRunning ?d (fsConn s), EvCleanup ?d,
                        EvProtoSendControl (controlConn s) (Some ?err)]"
    using ab by (simp add: emit_def)
qed


subsection \<open>Concrete runs of the source\<close>

lemma SplitN_2:
  "SplitN s sep 2 = (case Index s sep of None \<Rightarrow> [s] | Some m \<Rightarrow> [take m s, drop (m + length sep) s])"
  by (simp add: numeral_2_eq_2 split: option.splits)

lemmas ex_defs = ex_src_env_def ex_source_def ex_source_live_def ex_snapshot_def ex_container_def
  ex_header_def

lemma ex_build_header: "build_header ex_src_env (Some CRIU_RSYNC) None = Some ex_opening_header"
  by (simp add: build_header_def ex_defs ex_opening_header_def opening_header_def
      source_idmaps_def snapshotToProtobuf_def new_var_def assign_def deref_def
      read_Snapshot_def read_Device_def config_entries_def ExtractSnapshotName_def
      SnapshotDelimiter_def SplitN_2 Let_def)

text \<open>
  C2 as stated fails: the driver is obtained, the read of the echo header fails, and the
  run ends without a call of \<^verbatim>\<open>Cleanup\<close>.
\<close>

theorem cleanup_skipped_counterexample:
  "src_MigrationSource ex_src_env_recv_fails = None
   \<and> obs Cleanups (trace (snd (source_Do ex_src_env_recv_fails ex_source))) = []"
  by (simp add: ex_src_env_recv_fails_def ex_defs source_Do_def source_Do_header_def
      build_header_def send_unlocked sendControl_error_blocks andThen_def Let_def emit_def obs_def
      snapshotToProtobuf_def new_var_def assign_def ExtractSnapshotName_def
      SnapshotDelimiter_def SplitN_2 split: prod.splits)

text \<open>
  The same type on both sides, another type on the sink, and a failed read of the echo.
\<close>

theorem cleanup_once_after_header_exchange_witness:
  "obs Cleanups (trace (snd (source_Do ex_src_env ex_source))) = [EvCleanup StorageMigrationSource]
   \<and> obs Cleanups (trace (snd (source_Do (ex_src_env\<lparr> src_MigrationType := BTRFS \<rparr>) ex_source)))
       = [EvCleanup rsyncMigrationSource]
   \<and> obs Cleanups (trace (snd (source_Do ex_src_env_recv_fails ex_source))) = []"
  using cleanup_once_after_header_exchange [of ex_source ex_src_env None ex_header]
    cleanup_once_after_header_exchange [of ex_source "ex_src_env\<lparr> src_MigrationType := BTRFS \<rparr>" None ex_header]
    cleanup_once_after_header_exchange [of ex_source ex_src_env_recv_fails None ex_header]
  by (simp add: ex_src_env_recv_fails_def ex_defs negotiated_driver_def source_negotiate_def obs_def)

text \<open>A stopped container on a storage whose \<^verbatim>\<open>MigrationSource\<close> is not implemented.\<close>

theorem driver_failure_header_then_blocked_witness:
  "fst (source_Do ex_src_env_no_driver ex_source) = Blocked
   \<and> trace (snd (source_Do ex_src_env_no_driver ex_source))
       = [EvStorageStart,
          EvProtoSend (Some 1)
            \<lparr> pb_Fs = ZFS, pb_Criu = None, pb_Idmap = [], pb_SnapshotNames = [], pb_Snapshots = [] \<rparr>,
          EvProtoSendControl (Some 1) (Some (Errorf ''not implemented''))]"
  using driver_failure_header_then_blocked [of ex_source ex_src_env_no_driver None "Errorf ''not implemented''"]
  by (simp add: ex_src_env_no_driver_def ex_defs opening_header_def source_idmaps_def)

text \<open>A running container and a sink that echoes no checkpoint type.\<close>

theorem live_bad_criu_type_aborts_then_blocked_witness:
  "live ex_source_live \<and> pb_Criu ex_header = None
   \<and> fst (source_Do ex_src_env ex_source_live) = Blocked
   \<and> trace (snd (source_Do ex_src_env ex_source_live))
       = [EvProtoSend (Some 1) ex_opening_header, EvProtoRecvHeader,
          EvSendWhileRunning StorageMigrationSource (Some 2),
          EvCleanup StorageMigrationSource,
          EvProtoSendControl (Some 1)
            (Some (Errorf ''Got no CRIU socket type for live migration''))]"
  using live_bad_criu_type_aborts_then_blocked [of ex_source_live ex_src_env None ex_opening_header
      ex_header]
    ex_build_header
  by (simp add: ex_defs negotiated_driver_def source_negotiate_def)

subsection \<open>The sink\<close>

lemma obs_sink_on_restore_headers [simp]:
  "obs HeaderMessages (trace (snd (sink_on_restore r c))) = obs HeaderMessages (trace c)"
proof -
  have "obs HeaderMessages (trace (snd (sink_on_restore r c)))
        = obs HeaderMessages (trace (snd (sendControl r c)))"
    by (cases "sendControl r c"; cases "fst (sendControl r c)")
       (auto simp: sink_on_restore_def andThen_def)
  then show ?thesis by simp
qed

lemma obs_after_disconnect:
  fixes f :: "unit \<Rightarrow> migrationFields \<Rightarrow> error option res \<times> migrationFields"
  assumes "\<And>c1. obs w (trace (snd (f () c1))) = obs w (trace c1) @ extra"
  shows "fst (disconnect c) = Ret () \<Longrightarrow>
         obs w (trace (snd (andThen (disconnect c) f))) = obs w (trace c) @ extra"
  using assms [of "snd (disconnect c)"] obs_disconnect [of w c]
  by (cases "disconnect c") (auto simp: andThen_def)

lemma disconnect_unlocked: "\<not> controlLock c \<Longrightarrow> fst (disconnect c) = Ret ()"
  by (simp add: disconnect_def Lock_def andThen_def Let_def)

lemma disconnect_locked: "controlLock c \<Longrightarrow> disconnect c = (Blocked, c)"
  by (simp add: disconnect_def Lock_def andThen_def)

lemma obs_sink_loop_headers:
  "obs HeaderMessages (trace (snd (sink_loop env r c))) = obs HeaderMessages (trace c)"
proof (cases "controlLock c")
  case True
  then show ?thesis
    by (auto simp: sink_loop_def Let_def disconnect_locked andThen_def
        split: source_event.splits option.splits)
next
  case False
  have d: "\<And>f :: unit \<Rightarrow> migrationFields \<Rightarrow> error option res \<times> migrationFields.
      (\<And>c1. obs HeaderMessages (trace (snd (f () c1))) = obs HeaderMessages (trace c1) @ [])
      \<Longrightarrow> obs HeaderMessages (trace (snd (andThen (disconnect c) f))) = obs HeaderMessages (trace c)"
    using obs_after_disconnect [where w = HeaderMessages and c = c and extra = "[]"]
      disconnect_unlocked [OF False] by simp
  show ?thesis
    by (auto simp: sink_loop_def Let_def d split: source_event.splits option.splits)
qed



lemma sink_on_restore_error:
  "\<not> controlLock c \<Longrightarrow>
   sink_on_restore (Some e) c
     = (Blocked, emit (EvProtoSendControl (controlConn c) (Some e)) (c\<lparr> controlLock := True \<rparr>))"
  by (simp add: sink_on_restore_def sendControl_error_blocks andThen_def)

text \<open>
  C1 on the code. When the connections are up, the headers are exchanged and the restore
  goroutine reports an error, the sink sends the control message with that error and
  then blocks: \<^verbatim>\<open>sendControl\<close> calls \<^verbatim>\<open>disconnect\<close> while it holds \<^verbatim>\<open>controlLock\<close>.
  \<^verbatim>\<open>Do\<close> never comes to \<^verbatim>\<open>c.src.container.Delete()\<close> and never returns, so the failed
  migration leaves the container on the sink.
\<close>

theorem sink_restore_failure_blocks_before_Delete:
  "snk_Dial_control env = Inr k1 \<and> snk_Dial_fs env = Inr k2
     \<and> (live c \<longrightarrow> (\<exists>k3. snk_Dial_criu env = Inr k3))
     \<and> snk_ProtoRecv_header env = Inr header \<and> snk_ProtoSend env = None \<and> \<not> controlLock c
     \<and> (\<not> snk_source_first env \<or> snk_source env = NoMessage
          \<or> (\<exists>msg. snk_source env = Message msg \<and> pb_Success msg \<and> snk_TemplateApply env = None))
     \<and> restore_result env
          (fst (sink_negotiate header (snk_MigrationType env)
                 (if live c then Some CRIU_RSYNC else None)))
          header (live c) (Some k2) = Some e
   \<longrightarrow> fst (sink_Do env c) = Blocked
       \<and> obs Deletes (trace (snd (sink_Do env c))) = obs Deletes (trace c)
       \<and> last (trace (snd (sink_Do env c))) = EvProtoSendControl (Some k1) (Some e)"
proof (intro impI)
  assume a: "snk_Dial_control env = Inr k1 \<and> snk_Dial_fs env = Inr k2
     \<and> (live c \<longrightarrow> (\<exists>k3. snk_Dial_criu env = Inr k3))
     \<and> snk_ProtoRecv_header env = Inr header \<and> snk_ProtoSend env = None \<and> \<not> controlLock c
     \<and> (\<not> snk_source_first env \<or> snk_source env = NoMessage
          \<or> (\<exists>msg. snk_source env = Message msg \<and> pb_Success msg \<and> snk_TemplateApply env = None))
     \<and> restore_result env
          (fst (sink_negotiate header (snk_MigrationType env)
                 (if live c then Some CRIU_RSYNC else None)))
          header (live c) (Some k2) = Some e"
  have loop: "\<And>c'. \<not> controlLock c' \<Longrightarrow> controlConn c' = Some k1 \<Longrightarrow>
      fst (sink_loop env (Some e) c') = Blocked
      \<and> obs Deletes (trace (snd (sink_loop env (Some e) c'))) = obs Deletes (trace c')
      \<and> last (trace (snd (sink_loop env (Some e) c'))) = EvProtoSendControl (Some k1) (Some e)"
    using a
    by (auto simp: sink_loop_def sink_on_restore_error Let_def emit_def obs_def)
  have hdr: "\<And>c'. \<not> controlLock c' \<Longrightarrow> controlConn c' = Some k1 \<Longrightarrow> fsConn c' = Some k2
      \<Longrightarrow> live c' = live c \<Longrightarrow>
      fst (sink_Do_header env c') = Blocked
      \<and> obs Deletes (trace (snd (sink_Do_header env c'))) = obs Deletes (trace c')
      \<and> last (trace (snd (sink_Do_header env c'))) = EvProtoSendControl (Some k1) (Some e)"
  proof -
    fix c' :: migrationFields
    assume c': "\<not> controlLock c'" "controlConn c' = Some k1" "fsConn c' = Some k2" "live c' = live c"
    obtain mySink resp where neg: "sink_negotiate header (snk_MigrationType env)
        (if live c then Some CRIU_RSYNC else None) = (mySink, resp)"
      by (cases "sink_negotiate header (snk_MigrationType env) (if live c then Some CRIU_RSYNC else None)") auto
    let ?c2 = "emit (EvProtoSend (Some k1) resp) (emit EvProtoRecvHeader c')"
    have "sink_Do_header env c' = sink_loop env (Some e) ?c2"
      using a c' neg
      by (simp add: sink_Do_header_def Let_def send_unlocked andThen_def)
    then show "fst (sink_Do_header env c') = Blocked
      \<and> obs Deletes (trace (snd (sink_Do_header env c'))) = obs Deletes (trace c')
      \<and> last (trace (snd (sink_Do_header env c'))) = EvProtoSendControl (Some k1) (Some e)"
      using loop [of ?c2] c' by simp
  qed
  have conn: "\<And>c'. \<not> controlLock c' \<Longrightarrow> controlConn c' = Some k1 \<Longrightarrow> live c' = live c \<Longrightarrow>
      fst (sink_Do_connected env c') = Blocked
      \<and> obs Deletes (trace (snd (sink_Do_connected env c'))) = obs Deletes (trace c')
      \<and> last (trace (snd (sink_Do_connected env c'))) = EvProtoSendControl (Some k1) (Some e)"
  proof -
    fix c' :: migrationFields
    assume c': "\<not> controlLock c'" "controlConn c' = Some k1" "live c' = live c"
    show "fst (sink_Do_connected env c') = Blocked
      \<and> obs Deletes (trace (snd (sink_Do_connected env c'))) = obs Deletes (trace c')
      \<and> last (trace (snd (sink_Do_connected env c'))) = EvProtoSendControl (Some k1) (Some e)"
    proof (cases "live c")
      case True
      then obtain k3 where k3: "snk_Dial_criu env = Inr k3" using a by auto
      let ?c3 = "(emit (EvDial (criuSecret c')) ((emit (EvDial (fsSecret c')) c')\<lparr> fsConn := Some k2 \<rparr>))\<lparr> criuConn := Some k3 \<rparr>"
      have "sink_Do_connected env c' = sink_Do_header env ?c3"
        using a c' True k3 by (simp add: sink_Do_connected_def Let_def emit_def)
      then show ?thesis
        using hdr [of ?c3] c' by (simp add: emit_def obs_def)
    next
      case False
      let ?c2 = "(emit (EvDial (fsSecret c')) c')\<lparr> fsConn := Some k2 \<rparr>"
      have "sink_Do_connected env c' = sink_Do_header env ?c2"
        using a c' False by (simp add: sink_Do_connected_def Let_def emit_def)
      then show ?thesis
        using hdr [of ?c2] c' by (simp add: emit_def obs_def)
    qed
  qed
  let ?c1 = "(emit (EvDial (controlSecret c)) c)\<lparr> controlConn := Some k1 \<rparr>"
  have c1: "fst (sink_Do_connected env ?c1) = Blocked
      \<and> obs Deletes (trace (snd (sink_Do_connected env ?c1))) = obs Deletes (trace ?c1)
      \<and> last (trace (snd (sink_Do_connected env ?c1))) = EvProtoSendControl (Some k1) (Some e)"
    using conn [of ?c1] a by (simp add: emit_def)
  obtain r cf where run: "sink_Do_connected env ?c1 = (r, cf)"
    by (cases "sink_Do_connected env ?c1") auto
  then have "r = Blocked" using c1 by simp
  then have "sink_Do env c = (Blocked, cf)"
    using a run by (simp add: sink_Do_def Let_def)
  then show "fst (sink_Do env c) = Blocked
       \<and> obs Deletes (trace (snd (sink_Do env c))) = obs Deletes (trace c)
       \<and> last (trace (snd (sink_Do env c))) = EvProtoSendControl (Some k1) (Some e)"
    using c1 run by (simp add: emit_def obs_def)
qed

text \<open>A stopped container whose storage sink runs out of space.\<close>

theorem sink_restore_failure_blocks_before_Delete_witness:
  "fst (sink_Do ex_snk_env_no_space ex_sink) = Blocked
   \<and> obs Deletes (trace (snd (sink_Do ex_snk_env_no_space ex_sink))) = []
   \<and> last (trace (snd (sink_Do ex_snk_env_no_space ex_sink)))
       = EvProtoSendControl (Some 1) (Some (Errorf ''no space left on device''))"
  using sink_restore_failure_blocks_before_Delete [of ex_snk_env_no_space 1 2 ex_sink ex_header
      "Errorf ''no space left on device''"]
  by (simp add: ex_snk_env_no_space_def ex_snk_env_def ex_sink_def ex_header_def
      restore_result_def fsTransfer_result_def obs_def)

subsection \<open>The descriptors the sink makes from names\<close>

lemma devices_loop_eq:
  "devices_loop a devs acc h
     = (acc @ map (\<lambda>(n, d). \<lparr> pb_Device_Name = a, pb_Device_Config = config_entries d \<rparr>) devs,
        if devs = [] then h else h[a := fst (last devs)])"
  by (induction devs arbitrary: acc h) (auto simp: assign_def)

lemma snapshotToProtobuf_eq:
  "snapshotToProtobuf c h
     = (snapshot_at c (length h),
        h @ [dev_name_var c, last (SplitN (Name c) SnapshotDelimiter 2)])"
  by (simp add: snapshotToProtobuf_def new_var_def devices_loop_eq snapshot_at_def dev_name_var_def
      Let_def)

lemma legacy_loop_eq:
  "name < length h \<Longrightarrow>
   legacy_loop name c names acc h
     = (acc @ map (\<lambda>i. (snapshot_at c (length h + 2 * i))\<lparr> pb_Name := name \<rparr>) [0..<length names],
        (if names = [] then h else h[name := last names])
          @ concat (replicate (length names)
              [dev_name_var c, last (SplitN (Name c) SnapshotDelimiter 2)]))"
proof (induction names arbitrary: acc h)
  case Nil
  then show ?case by simp
next
  case (Cons n names)
  let ?ext = "[dev_name_var c, last (SplitN (Name c) SnapshotDelimiter 2)]"
  let ?h2 = "h[name := n] @ ?ext"
  have lt: "name < length ?h2" using Cons.prems by simp
  have upd: "?h2[name := x] = h[name := x] @ ?ext" for x
    using Cons.prems by (simp add: list_update_append1)
  have idx: "map (\<lambda>i. (snapshot_at c (length h + 2 * i))\<lparr> pb_Name := name \<rparr>) [0..<Suc (length names)]
      = (snapshot_at c (length h))\<lparr> pb_Name := name \<rparr>
        # map (\<lambda>i. (snapshot_at c (length ?h2 + 2 * i))\<lparr> pb_Name := name \<rparr>) [0..<length names]"
    by (simp add: upt_rec [of 0 "Suc (length names)"] map_Suc_upt [symmetric] del: upt_Suc)
  show ?case
    using Cons.IH [OF lt, of "acc @ [(snapshot_at c (length h))\<lparr> pb_Name := name \<rparr>]"] idx upd
    by (simp add: snapshotToProtobuf_eq assign_def del: upt_Suc)
qed

lemma nth_concat_pairs:
  "i < k \<Longrightarrow> concat (replicate k [a, b]) ! (2 * i) = a"
proof (induction k arbitrary: i)
  case 0
  then show ?case by simp
next
  case (Suc k)
  then show ?case by (cases i) simp_all
qed

lemma read_legacy:
  assumes "name < length h0" "i < k"
  shows "read_Snapshot (h0 @ concat (replicate k [dv, lp]))
           ((snapshot_at c (length h0 + 2 * i))\<lparr> pb_Name := name \<rparr>)
         = \<lparr> msg_Name = h0 ! name,
             msg_LocalConfig = config_entries (LocalConfig c),
             msg_Profiles = Profiles c,
             msg_Ephemeral = IsEphemeral c,
             msg_LocalDevices =
               map (\<lambda>(n, d). \<lparr> msg_Device_Name = dv, msg_Device_Config = config_entries d \<rparr>)
                 (LocalDevices c),
             msg_Architecture = ucast (Architecture c),
             msg_Stateful = IsStateful c \<rparr>"
  using assms
  by (simp add: read_Snapshot_def snapshot_at_def read_Device_def deref_def nth_append
      nth_concat_pairs split_def comp_def)

lemma descriptor_named_eq:
  "descriptor_named c n
     = \<lparr> msg_Name = n,
         msg_LocalConfig = config_entries (LocalConfig c),
         msg_Profiles = Profiles c,
         msg_Ephemeral = IsEphemeral c,
         msg_LocalDevices =
           map (\<lambda>(n, d). \<lparr> msg_Device_Name = dev_name_var c, msg_Device_Config = config_entries d \<rparr>)
             (LocalDevices c),
         msg_Architecture = ucast (Architecture c),
         msg_Stateful = IsStateful c \<rparr>"
  by (simp add: descriptor_named_def snapshotToProtobuf_eq read_Snapshot_def snapshot_at_def
      read_Device_def deref_def split_def comp_def)



end
